theory Spec2Isabelle
  imports Complex_Main "HOL-Library.Sublist" "HOL-Library.Monad_Syntax"
begin

section \<open>Python strings\<close>

text \<open>
  A Python \<open>str\<close> is a sequence of Unicode code points and \<open>len\<close> counts code points,
  so a string is modelled as a list of code points. Chinese literals of the source are
  written by their code points (hexadecimal), with the character named in a comment.
\<close>

type_synonym uchar = nat
type_synonym ustring = "uchar list"

definition asc :: "string \<Rightarrow> ustring" where
  \<comment> \<open>an ASCII literal of the source\<close>
  "asc s = map of_char s"

definition isspace :: "uchar \<Rightarrow> bool" where
  \<comment> \<open>\<open>str.isspace\<close> on one character; the same set is matched by \<open>\s\<close> in \<open>re\<close>
      and removed by \<open>str.strip()\<close>\<close>
  "isspace c \<longleftrightarrow>
     (0x9 \<le> c \<and> c \<le> 0xD) \<or> (0x1C \<le> c \<and> c \<le> 0x20) \<or> c = 0x85 \<or> c = 0xA0 \<or>
     c = 0x1680 \<or> (0x2000 \<le> c \<and> c \<le> 0x200A) \<or> c = 0x2028 \<or> c = 0x2029 \<or>
     c = 0x202F \<or> c = 0x205F \<or> c = 0x3000"

definition strip :: "ustring \<Rightarrow> ustring" where
  \<comment> \<open>\<open>s.strip()\<close>\<close>
  "strip s = rev (dropWhile isspace (rev (dropWhile isspace s)))"

definition slice_to :: "ustring \<Rightarrow> int \<Rightarrow> ustring" where
  \<comment> \<open>\<open>s[:n]\<close>; a negative \<open>n\<close> counts from the end\<close>
  "slice_to s n = (if 0 \<le> n then take (nat n) s else take (nat (int (length s) + n)) s)"

section \<open>Python floats\<close>

text \<open>
  A Python \<open>float\<close> is an IEEE 754 binary64 number. A finite float is modelled by the
  rational number it denotes, and every arithmetic operation rounds the exact result to
  the nearest binary64 number, ties to even (\<open>double_round\<close>). The result \<open>None\<close>
  stands for a value outside the finite range: Python raises \<open>OverflowError\<close> when an
  \<open>int\<close> is too large to convert, and yields an infinity when an operation on floats
  overflows. Signed zeros are not distinguished.
\<close>

fun bit_length :: "nat \<Rightarrow> nat" where
  \<comment> \<open>the number of binary digits\<close>
  "bit_length n = (if n = 0 then 0 else Suc (bit_length (n div 2)))"

definition pow2 :: "int \<Rightarrow> rat" where
  "pow2 k = (if 0 \<le> k then 2 ^ nat k else 1 / 2 ^ nat (- k))"

definition floor_log2 :: "rat \<Rightarrow> int" where
  \<comment> \<open>for \<open>0 < q\<close>: the exponent \<open>e\<close> with \<open>2 ^ e \<le> q < 2 ^ (e + 1)\<close>\<close>
  "floor_log2 q =
     (if 1 \<le> q then int (bit_length (nat \<lfloor>q\<rfloor>)) - 1
      else - int (bit_length (nat (\<lceil>1 / q\<rceil> - 1))))"

definition round_half_even :: "rat \<Rightarrow> int" where
  "round_half_even x =
     (let f = \<lfloor>x\<rfloor>; r = x - of_int f
      in if r < 1 / 2 then f else if 1 / 2 < r then f + 1 else if even f then f else f + 1)"

definition double_round :: "rat \<Rightarrow> rat option" where
  \<comment> \<open>round to nearest, ties to even, with 53 significant bits; below \<open>2 ^ (- 1022)\<close>
      the spacing is that of the subnormal numbers\<close>
  "double_round q =
     (if q = 0 then Some 0
      else let a = \<bar>q\<bar>;
               e = max (floor_log2 a) (- 1022);
               ulp = pow2 (e - 52);
               r = of_int (round_half_even (a / ulp)) * ulp
           in if pow2 1024 \<le> r then None else Some (sgn q * r))"

definition fadd :: "rat \<Rightarrow> rat \<Rightarrow> rat option" where
  "fadd x y = double_round (x + y)"

definition fmul :: "rat \<Rightarrow> rat \<Rightarrow> rat option" where
  "fmul x y = double_round (x * y)"

definition float_of_int :: "int \<Rightarrow> rat option" where
  \<comment> \<open>the conversion of an \<open>int\<close> operand in mixed arithmetic\<close>
  "float_of_int n = double_round (of_int n)"

definition py_round :: "rat \<Rightarrow> nat \<Rightarrow> rat option" where
  \<comment> \<open>\<open>round(x, ndigits)\<close> on a float: the decimal rounding of the exact value, ties to
      even, converted back to the nearest float\<close>
  "py_round x nd = double_round (of_int (round_half_even (x * 10 ^ nd)) / 10 ^ nd)"

section \<open>Regular expressions\<close>

text \<open>
  The patterns of the two scripts are sequences of groups, and \<open>re\<close> matches by
  backtracking: each group offers its possible matches at a position in order of
  preference, and the first combination that lets the whole sequence match is the
  result. A group is modelled by the list of its alternatives, each the matched text and
  the rest of the input, in that order.
\<close>

type_synonym rx = "ustring \<Rightarrow> (ustring \<times> ustring) list"

definition decimal_ranges :: "(nat \<times> nat) list" where
  \<comment> \<open>the code points of general category Nd (Unicode 14.0), in runs of ten digits
      \<open>0\<close> to \<open>9\<close>; \<open>\d\<close> of a \<open>str\<close> pattern matches any of them\<close>
  "decimal_ranges =
     [(0x30, 0x39), (0x660, 0x669), (0x6F0, 0x6F9), (0x7C0, 0x7C9),
      (0x966, 0x96F), (0x9E6, 0x9EF), (0xA66, 0xA6F), (0xAE6, 0xAEF),
      (0xB66, 0xB6F), (0xBE6, 0xBEF), (0xC66, 0xC6F), (0xCE6, 0xCEF),
      (0xD66, 0xD6F), (0xDE6, 0xDEF), (0xE50, 0xE59), (0xED0, 0xED9),
      (0xF20, 0xF29), (0x1040, 0x1049), (0x1090, 0x1099), (0x17E0, 0x17E9),
      (0x1810, 0x1819), (0x1946, 0x194F), (0x19D0, 0x19D9), (0x1A80, 0x1A89),
      (0x1A90, 0x1A99), (0x1B50, 0x1B59), (0x1BB0, 0x1BB9), (0x1C40, 0x1C49),
      (0x1C50, 0x1C59), (0xA620, 0xA629), (0xA8D0, 0xA8D9), (0xA900, 0xA909),
      (0xA9D0, 0xA9D9), (0xA9F0, 0xA9F9), (0xAA50, 0xAA59), (0xABF0, 0xABF9),
      (0xFF10, 0xFF19), (0x104A0, 0x104A9), (0x10D30, 0x10D39), (0x11066, 0x1106F),
      (0x110F0, 0x110F9), (0x11136, 0x1113F), (0x111D0, 0x111D9), (0x112F0, 0x112F9),
      (0x11450, 0x11459), (0x114D0, 0x114D9), (0x11650, 0x11659), (0x116C0, 0x116C9),
      (0x11730, 0x11739), (0x118E0, 0x118E9), (0x11950, 0x11959), (0x11C50, 0x11C59),
      (0x11D50, 0x11D59), (0x11DA0, 0x11DA9), (0x16A60, 0x16A69), (0x16AC0, 0x16AC9),
      (0x16B50, 0x16B59), (0x1D7CE, 0x1D7FF), (0x1E140, 0x1E149), (0x1E2F0, 0x1E2F9),
      (0x1E950, 0x1E959), (0x1FBF0, 0x1FBF9)]"

fun digit_in :: "(nat \<times> nat) list \<Rightarrow> uchar \<Rightarrow> nat option" where
  "digit_in [] c = None"
| "digit_in ((lo, hi) # rs) c =
     (if lo \<le> c \<and> c \<le> hi then Some ((c - lo) mod 10) else digit_in rs c)"

definition digit_value :: "uchar \<Rightarrow> nat option" where
  \<comment> \<open>the value \<open>int\<close> gives a decimal digit\<close>
  "digit_value c = digit_in decimal_ranges c"

definition is_decimal :: "uchar \<Rightarrow> bool" where
  \<comment> \<open>the class \<open>\d\<close>\<close>
  "is_decimal c \<longleftrightarrow> digit_value c \<noteq> None"

definition in_range :: "char \<Rightarrow> char \<Rightarrow> uchar \<Rightarrow> bool" where
  \<comment> \<open>a class \<open>[a-b]\<close> of ASCII characters\<close>
  "in_range a b c \<longleftrightarrow> of_char a \<le> c \<and> c \<le> of_char b"

definition rx_lit :: "ustring \<Rightarrow> rx" where
  \<comment> \<open>literal text\<close>
  "rx_lit l s = (if prefix l s then [(l, drop (length l) s)] else [])"

definition rx_class :: "(uchar \<Rightarrow> bool) \<Rightarrow> rx" where
  \<comment> \<open>one character of a class\<close>
  "rx_class P s = (case s of [] \<Rightarrow> [] | c # cs \<Rightarrow> if P c then [([c], cs)] else [])"

definition rx_rep :: "(uchar \<Rightarrow> bool) \<Rightarrow> nat \<Rightarrow> nat \<Rightarrow> rx" where
  \<comment> \<open>the greedy repetition \<open>{lo,hi}\<close> of a class: the longest run first\<close>
  "rx_rep P lo hi s =
     (let n = length (takeWhile P (take hi s))
      in map (\<lambda>k. (take k s, drop k s)) (rev [lo..<Suc n]))"

definition rx_plus :: "(uchar \<Rightarrow> bool) \<Rightarrow> rx" where
  \<comment> \<open>the greedy repetition \<open>+\<close> of a class\<close>
  "rx_plus P s = rx_rep P 1 (length s) s"

definition rx_then :: "rx \<Rightarrow> rx \<Rightarrow> rx" where
  \<comment> \<open>two parts of one group, one after the other\<close>
  "rx_then p q s =
     concat (map (\<lambda>(a, r). map (\<lambda>(b, r'). (a @ b, r')) (q r)) (p s))"

definition rx_alt :: "rx list \<Rightarrow> rx" where
  \<comment> \<open>the alternation \<open>a|b|c\<close>: the earlier alternative is preferred\<close>
  "rx_alt ps s = concat (map (\<lambda>p. p s) ps)"

fun rx_seq :: "rx list \<Rightarrow> ustring \<Rightarrow> (ustring list \<times> ustring) list" where
  \<comment> \<open>a sequence of groups: every way to match it, with the text of each group\<close>
  "rx_seq [] s = [([], s)]"
| "rx_seq (p # ps) s =
     concat (map (\<lambda>(a, r). map (\<lambda>(gs, r'). (a # gs, r')) (rx_seq ps r)) (p s))"

definition re_match :: "rx list \<Rightarrow> ustring \<Rightarrow> (ustring list \<times> ustring) option" where
  \<comment> \<open>\<open>re.match\<close>: the first match at the start of the string, with the unmatched rest\<close>
  "re_match ps s = (case rx_seq ps s of [] \<Rightarrow> None | m # _ \<Rightarrow> Some m)"

fun re_search :: "rx list \<Rightarrow> ustring \<Rightarrow> ustring list option" where
  \<comment> \<open>\<open>re.search\<close>: the match at the leftmost position that has one\<close>
  "re_search ps [] = map_option fst (re_match ps [])"
| "re_search ps (c # cs) =
     (case re_match ps (c # cs) of
        Some m \<Rightarrow> Some (fst m)
      | None \<Rightarrow> re_search ps cs)"

fun contains :: "ustring \<Rightarrow> ustring \<Rightarrow> bool" where
  \<comment> \<open>\<open>sub in s\<close> for strings; the first argument is \<open>s\<close>\<close>
  "contains [] sub = (sub = [])"
| "contains (c # cs) sub = (prefix sub (c # cs) \<or> contains cs sub)"

definition zfill :: "nat \<Rightarrow> ustring \<Rightarrow> ustring" where
  \<comment> \<open>\<open>s.zfill(w)\<close>: zeros on the left, after a leading sign\<close>
  "zfill w s =
     (if w \<le> length s then s
      else case s of
             [] \<Rightarrow> replicate w 0x30
           | c # cs \<Rightarrow>
               if c = 0x2B \<or> c = 0x2D then c # replicate (w - length s) 0x30 @ cs
               else replicate (w - length s) 0x30 @ s)"

section \<open>Dates and times\<close>

text \<open>
  A \<open>datetime\<close> value with its six fields down to the second. The microsecond of the
  clock is left out: the functions below format and subtract whole seconds only.
\<close>

record datetime =
  year :: int
  month :: int
  day :: int
  hour :: int
  minute :: int
  second :: int

definition is_leap :: "int \<Rightarrow> bool" where
  "is_leap y \<longleftrightarrow> y mod 4 = 0 \<and> (y mod 100 \<noteq> 0 \<or> y mod 400 = 0)"

definition days_in_month :: "int \<Rightarrow> int \<Rightarrow> int" where
  "days_in_month y m =
     (if m = 2 then (if is_leap y then 29 else 28)
      else if m = 4 \<or> m = 6 \<or> m = 9 \<or> m = 11 then 30 else 31)"

definition valid_datetime :: "datetime \<Rightarrow> bool" where
  \<comment> \<open>the ranges the \<open>datetime\<close> constructor checks\<close>
  "valid_datetime t \<longleftrightarrow>
     1 \<le> year t \<and> year t \<le> 9999 \<and> 1 \<le> month t \<and> month t \<le> 12 \<and>
     1 \<le> day t \<and> day t \<le> days_in_month (year t) (month t) \<and>
     0 \<le> hour t \<and> hour t \<le> 23 \<and> 0 \<le> minute t \<and> minute t \<le> 59 \<and>
     0 \<le> second t \<and> second t \<le> 59"

definition days_before_year :: "int \<Rightarrow> int" where
  "days_before_year y = (y - 1) * 365 + (y - 1) div 4 - (y - 1) div 100 + (y - 1) div 400"

definition days_before_month :: "int \<Rightarrow> int \<Rightarrow> int" where
  "days_before_month y m = (\<Sum>k \<leftarrow> [1..<nat m]. days_in_month y (int k))"

definition ymd2ord :: "int \<Rightarrow> int \<Rightarrow> int \<Rightarrow> int" where
  \<comment> \<open>the proleptic Gregorian ordinal; 1 January of year 1 is day 1\<close>
  "ymd2ord y m d = days_before_year y + days_before_month y m + d"

definition ord2ymd :: "int \<Rightarrow> int \<times> int \<times> int" where
  \<comment> \<open>the inverse of \<open>ymd2ord\<close>, as \<open>datetime.py\<close> computes it\<close>
  "ord2ymd n0 =
     (let n = n0 - 1;
          n400 = n div 146097; n = n mod 146097;
          n100 = n div 36524; n = n mod 36524;
          n4 = n div 1461; n = n mod 1461;
          n1 = n div 365; n = n mod 365;
          y = n400 * 400 + 1 + n100 * 100 + n4 * 4 + n1
      in if n1 = 4 \<or> n100 = 4 then (y - 1, 12, 31)
         else let leapyear = (n1 = 3 \<and> (n4 \<noteq> 24 \<or> n100 = 3));
                  before = (\<lambda>m. (\<Sum>k \<leftarrow> [1..<nat m].
                                if k = 2 then (if leapyear then 29 else 28)
                                else if k = 4 \<or> k = 6 \<or> k = 9 \<or> k = 11 then 30 else 31));
                  m0 = (n + 50) div 32;
                  m = (if n < before m0 then m0 - 1 else m0)
              in (y, m, n - before m + 1))"

definition seconds_of_day :: "datetime \<Rightarrow> int" where
  "seconds_of_day t = hour t * 3600 + minute t * 60 + second t"

definition minus_days :: "datetime \<Rightarrow> int \<Rightarrow> datetime option" where
  \<comment> \<open>\<open>t - timedelta(days=k)\<close>; \<open>None\<close> is the \<open>OverflowError\<close> of a date before
      year 1 or after year 9999\<close>
  "minus_days t k =
     (let n = ymd2ord (year t) (month t) (day t) - k
      in if n < 1 \<or> 3652059 < n then None
         else case ord2ymd n of
                (y, m, d) \<Rightarrow> Some (t\<lparr>year := y, month := m, day := d\<rparr>))"

definition days_between :: "datetime \<Rightarrow> datetime \<Rightarrow> int" where
  \<comment> \<open>\<open>(a - b).days\<close>: the difference in whole days, rounded down\<close>
  "days_between a b =
     ymd2ord (year a) (month a) (day a) - ymd2ord (year b) (month b) (day b)
     + (if seconds_of_day a < seconds_of_day b then - 1 else 0)"

function str_nat :: "nat \<Rightarrow> ustring" where
  \<comment> \<open>\<open>str(n)\<close> for \<open>0 \<le> n\<close>\<close>
  "str_nat n = (if n < 10 then [0x30 + n] else str_nat (n div 10) @ [0x30 + n mod 10])"
  by pat_completeness auto
termination
  by (relation "measure id") auto

definition str_int :: "int \<Rightarrow> ustring" where
  \<comment> \<open>\<open>str(n)\<close> of an \<open>int\<close>\<close>
  "str_int n = (if n < 0 then 0x2D # str_nat (nat (- n)) else str_nat (nat n))"

definition pad :: "nat \<Rightarrow> int \<Rightarrow> ustring" where
  \<comment> \<open>a non-negative field of \<open>strftime\<close>, zero-padded to its width\<close>
  "pad w n = zfill w (str_nat (nat n))"

definition strftime :: "datetime \<Rightarrow> ustring" where
  \<comment> \<open>\<open>t.strftime('%Y-%m-%d %H:%M:%S')\<close>, with the four-digit year of the documentation\<close>
  "strftime t =
     pad 4 (year t) @ asc ''-'' @ pad 2 (month t) @ asc ''-'' @ pad 2 (day t) @ asc '' '' @
     pad 2 (hour t) @ asc '':'' @ pad 2 (minute t) @ asc '':'' @ pad 2 (second t)"

fun digits_value :: "nat \<Rightarrow> ustring \<Rightarrow> nat option" where
  \<comment> \<open>the decimal value of a run of digits, from an accumulator\<close>
  "digits_value acc [] = Some acc"
| "digits_value acc (c # cs) =
     (case digit_value c of None \<Rightarrow> None | Some d \<Rightarrow> digits_value (acc * 10 + d) cs)"

definition int_of_str :: "ustring \<Rightarrow> int option" where
  \<comment> \<open>\<open>int(s)\<close> on the text of a numeric group: surrounding whitespace is ignored and
      every decimal digit of Unicode counts; \<open>None\<close> is the \<open>ValueError\<close>\<close>
  "int_of_str s =
     (case strip s of [] \<Rightarrow> None | c # cs \<Rightarrow> map_option int (digits_value 0 (c # cs)))"

text \<open>
  The groups \<open>_strptime\<close> compiles the directives to. A space of the format becomes
  \<open>\s+\<close>, every other character stands for itself.
\<close>

definition rx_Y :: rx where
  "rx_Y = rx_rep is_decimal 4 4"

definition rx_m :: rx where
  "rx_m = rx_alt [rx_then (rx_lit (asc ''1'')) (rx_class (in_range CHR ''0'' CHR ''2'')),
                  rx_then (rx_lit (asc ''0'')) (rx_class (in_range CHR ''1'' CHR ''9'')),
                  rx_class (in_range CHR ''1'' CHR ''9'')]"

definition rx_d :: rx where
  "rx_d = rx_alt [rx_then (rx_lit (asc ''3'')) (rx_class (in_range CHR ''0'' CHR ''1'')),
                  rx_then (rx_class (in_range CHR ''1'' CHR ''2'')) (rx_class is_decimal),
                  rx_then (rx_lit (asc ''0'')) (rx_class (in_range CHR ''1'' CHR ''9'')),
                  rx_class (in_range CHR ''1'' CHR ''9''),
                  rx_then (rx_lit (asc '' '')) (rx_class (in_range CHR ''1'' CHR ''9''))]"

definition rx_H :: rx where
  "rx_H = rx_alt [rx_then (rx_lit (asc ''2'')) (rx_class (in_range CHR ''0'' CHR ''3'')),
                  rx_then (rx_class (in_range CHR ''0'' CHR ''1'')) (rx_class is_decimal),
                  rx_class is_decimal]"

definition rx_M :: rx where
  "rx_M = rx_alt [rx_then (rx_class (in_range CHR ''0'' CHR ''5'')) (rx_class is_decimal),
                  rx_class is_decimal]"

definition rx_S :: rx where
  "rx_S = rx_alt [rx_then (rx_lit (asc ''6'')) (rx_class (in_range CHR ''0'' CHR ''1'')),
                  rx_then (rx_class (in_range CHR ''0'' CHR ''5'')) (rx_class is_decimal),
                  rx_class is_decimal]"

definition make_datetime :: "int \<Rightarrow> int \<Rightarrow> int \<Rightarrow> int \<Rightarrow> int \<Rightarrow> int \<Rightarrow> datetime option" where
  \<comment> \<open>the constructor; \<open>None\<close> is its \<open>ValueError\<close>\<close>
  "make_datetime y m d h mi s =
     (let t = \<lparr>year = y, month = m, day = d, hour = h, minute = mi, second = s\<rparr>
      in if valid_datetime t then Some t else None)"

definition evens :: "'a list \<Rightarrow> 'a list" where
  \<comment> \<open>the groups at the even positions: the numeric fields between the separators\<close>
  "evens xs = map (\<lambda>i. xs ! i) (filter even [0..<length xs])"

definition strptime :: "rx list \<Rightarrow> ustring \<Rightarrow> datetime option" where
  \<comment> \<open>\<open>datetime.strptime\<close> for a compiled format in which numeric fields and
      separators alternate: year, month, day, hour, minute and, when the format has it,
      second. \<open>None\<close> is the \<open>ValueError\<close>: the string does not match, text remains
      after the match, or the fields are no date and time\<close>
  "strptime fmt s =
     (case re_match fmt s of
        None \<Rightarrow> None
      | Some (gs, rest) \<Rightarrow>
          if rest \<noteq> [] then None
          else case map int_of_str (evens gs) of
                 [Some y, Some m, Some d, Some h, Some mi, Some sec] \<Rightarrow>
                   make_datetime y m d h mi sec
               | [Some y, Some m, Some d, Some h, Some mi] \<Rightarrow> make_datetime y m d h mi 0
               | _ \<Rightarrow> None)"

section \<open>Exceptions, library functions and JSON\<close>

datatype exn =
    ValueError ustring
  | UnicodeEncodeError
  | OverflowError
  | TypeError
  | AttributeError
  | FileNotFoundError
  | JSONDecodeError

text \<open>
  Library functions that the scripts call and that are not modelled here are parameters:
  the MD5 digest (of the UTF-8 encoding of a string, in hexadecimal), the network
  location that \<open>urlparse\<close> finds in a URL (\<open>None\<close> when \<open>urlparse\<close> raises), and the
  text \<open>str\<close> gives a float.
\<close>

record pylib =
  md5_hexdigest :: "ustring \<Rightarrow> ustring"
  urlparse_netloc :: "ustring \<Rightarrow> ustring option"
  float_str :: "rat \<Rightarrow> ustring"

definition encodable :: "ustring \<Rightarrow> bool" where
  \<comment> \<open>\<open>s.encode('utf-8')\<close> succeeds: no surrogate code point\<close>
  "encodable s = list_all (\<lambda>c. c < 0xD800 \<or> 0xDFFF < c) s"

definition choice :: "'a list \<Rightarrow> nat \<Rightarrow> 'a" where
  \<comment> \<open>\<open>random.choice\<close> on a non-empty sequence; the second argument is the raw draw\<close>
  "choice xs r = xs ! (r mod length xs)"

datatype json =
    JNull
  | JBool bool
  | JNum rat
  | JStr ustring
  | JArr "json list"
  | JObj "(ustring \<times> json) list"

fun join :: "ustring \<Rightarrow> ustring list \<Rightarrow> ustring" where
  \<comment> \<open>\<open>sep.join(xs)\<close>\<close>
  "join sep [] = []"
| "join sep [x] = x"
| "join sep (x # y # ys) = x @ sep @ join sep (y # ys)"

definition hex_digit :: "nat \<Rightarrow> uchar" where
  "hex_digit d = (if d < 10 then 0x30 + d else 0x61 + (d - 10))"

definition json_escape_char :: "uchar \<Rightarrow> ustring" where
  \<comment> \<open>the escapes of \<open>json.dumps(..., ensure_ascii=False)\<close>: the quotation mark, the
      backslash and the control characters below U+0020\<close>
  "json_escape_char c =
     (if c = 0x22 then [0x5C, 0x22]
      else if c = 0x5C then [0x5C, 0x5C]
      else if c = 0x08 then [0x5C, 0x62]
      else if c = 0x0C then [0x5C, 0x66]
      else if c = 0x0A then [0x5C, 0x6E]
      else if c = 0x0D then [0x5C, 0x72]
      else if c = 0x09 then [0x5C, 0x74]
      else if c < 0x20 then [0x5C, 0x75, 0x30, 0x30, hex_digit (c div 16), hex_digit (c mod 16)]
      else [c])"

definition json_dumps_str :: "ustring \<Rightarrow> ustring" where
  "json_dumps_str s = [0x22] @ concat (map json_escape_char s) @ [0x22]"

definition json_dumps_list :: "ustring list \<Rightarrow> ustring" where
  \<comment> \<open>\<open>json.dumps\<close> of a list of strings\<close>
  "json_dumps_list xs = asc ''['' @ join (asc '', '') (map json_dumps_str xs) @ asc '']''"

text \<open>
  A source record is a JSON object whose values are strings (section 3 of the
  specification), read as a map from field names to strings; of a repeated key the
  last value counts, as \<open>json.load\<close> has it.
\<close>

type_synonym source_item = "ustring \<rightharpoonup> ustring"

definition item_get :: "source_item \<Rightarrow> ustring \<Rightarrow> ustring \<Rightarrow> ustring" where
  \<comment> \<open>\<open>item.get(key, default)\<close>\<close>
  "item_get item k d = (case item k of None \<Rightarrow> d | Some v \<Rightarrow> v)"

fun string_fields :: "(ustring \<times> json) list \<Rightarrow> (ustring \<times> ustring) list option" where
  "string_fields [] = Some []"
| "string_fields ((k, JStr v) # kvs) = map_option (\<lambda>r. (k, v) # r) (string_fields kvs)"
| "string_fields ((k, _) # kvs) = None"

definition as_source_item :: "json \<Rightarrow> source_item option" where
  \<comment> \<open>the record a JSON value is, if it is an object of strings\<close>
  "as_source_item j =
     (case j of
        JObj kvs \<Rightarrow> map_option (\<lambda>r. map_of (rev r)) (string_fields kvs)
      | _ \<Rightarrow> None)"

text \<open>The normalized record: the dict both converters build, with its 24 keys.\<close>

record stats =
  view_count :: int
  like_count :: int
  comment_count :: int
  share_count :: int

record news_item = stats +
  title :: ustring
  content :: ustring
  summary :: ustring
  description :: ustring
  source :: ustring
  category :: ustring
  published_at :: ustring
  created_by :: "int option"
  is_active :: bool
  source_type :: ustring
  rss_source_id :: "int option"
  link :: ustring
  guid :: ustring
  author :: ustring
  image_url :: ustring
  tags :: ustring
  language :: ustring
  hotness_score :: rat
  status :: ustring
  is_processed :: bool

definition randint :: "int \<Rightarrow> int \<Rightarrow> nat \<Rightarrow> int" where
  \<comment> \<open>\<open>random.randint(a, b)\<close> for \<open>a \<le> b\<close>; the third argument is the raw draw of the
      generator, reduced into the range\<close>
  "randint a b r = a + int r mod (b - a + 1)"

(*LIB*)

section \<open>Variant 1: \<open>NewsConverter\<close> (convert_news.py)\<close>

subsection \<open>\<open>generate_summary\<close>\<close>

definition full_stop :: uchar where
  \<comment> \<open>U+3002, the ideographic full stop\<close>
  "full_stop = 0x3002"

definition is_terminal :: "uchar \<Rightarrow> bool" where
  \<comment> \<open>the character class of \<open>re.split(r'[...]')\<close>: U+3002, U+FF01 (fullwidth
      exclamation mark), U+FF1F (fullwidth question mark)\<close>
  "is_terminal c \<longleftrightarrow> c = 0x3002 \<or> c = 0xFF01 \<or> c = 0xFF1F"

definition lbracket :: uchar where
  \<comment> \<open>U+3010, left black lenticular bracket\<close>
  "lbracket = 0x3010"

definition rbracket :: uchar where
  \<comment> \<open>U+3011, right black lenticular bracket\<close>
  "rbracket = 0x3011"

fun find_close :: "ustring \<Rightarrow> ustring option" where
  \<comment> \<open>the lazy \<open>.*?\<close> followed by the right bracket: what follows the nearest right
      bracket, provided no newline comes first (\<open>.\<close> does not match a newline)\<close>
  "find_close [] = None"
| "find_close (c # cs) =
     (if c = rbracket then Some cs else if c = 0xA then None else find_close cs)"

lemma find_close_length: "find_close cs = Some r \<Longrightarrow> length r < Suc (length cs)"
  by (induction cs) (auto split: if_splits)

function remove_brackets :: "ustring \<Rightarrow> ustring" where
  \<comment> \<open>\<open>re.sub\<close> of a bracketed annotation by the empty string\<close>
  "remove_brackets [] = []"
| "remove_brackets (c # cs) =
     (if c = lbracket then
        (case find_close cs of
           Some r \<Rightarrow> remove_brackets r
         | None \<Rightarrow> c # remove_brackets cs)
      else c # remove_brackets cs)"
  by pat_completeness auto
termination
  by (relation "measure length") (auto dest: find_close_length)

fun split_on :: "(uchar \<Rightarrow> bool) \<Rightarrow> ustring \<Rightarrow> ustring list" where
  \<comment> \<open>\<open>re.split\<close> on a one-character class: empty pieces are kept\<close>
  "split_on p [] = [[]]"
| "split_on p (c # cs) =
     (if p c then [] # split_on p cs
      else (case split_on p cs of [] \<Rightarrow> [[c]] | w # ws \<Rightarrow> (c # w) # ws))"

definition clean_content :: "ustring \<Rightarrow> ustring" where
  \<comment> \<open>the two \<open>re.sub\<close> calls: whitespace runs, then bracketed annotations\<close>
  "clean_content body = remove_brackets (filter (\<lambda>c. \<not> isspace c) body)"

fun summary_loop :: "int \<Rightarrow> ustring \<Rightarrow> ustring list \<Rightarrow> ustring" where
  \<comment> \<open>the \<open>for\<close> loop with its \<open>break\<close>; the second argument is \<open>summary\<close>\<close>
  "summary_loop max_length summ [] = summ"
| "summary_loop max_length summ (sentence # rest) =
     (if int (length (summ @ sentence)) \<le> max_length \<and> strip sentence \<noteq> []
      then summary_loop max_length (summ @ sentence @ [full_stop]) rest
      else summ)"

definition generate_summary :: "ustring \<Rightarrow> int \<Rightarrow> ustring" where
  "generate_summary body max_length =
     (let sentences = split_on is_terminal (clean_content body);
          summ = summary_loop max_length [] sentences
      in if summ \<noteq> [] then strip summ else slice_to body max_length @ asc ''...'')"

subsection \<open>String tables of the two converters\<close>

text \<open>
  The category labels, the field names of a source record and the other Chinese literals
  of the two scripts. Each is given by its code points; the name says what the label means.
\<close>

definition cat_politics :: ustring where
  \<comment> \<open>U+653F U+6CBB\<close>
  "cat_politics = [0x653F, 0x6CBB]"

definition cat_economy :: ustring where
  \<comment> \<open>U+7ECF U+6D4E\<close>
  "cat_economy = [0x7ECF, 0x6D4E]"

definition cat_society :: ustring where
  \<comment> \<open>U+793E U+4F1A\<close>
  "cat_society = [0x793E, 0x4F1A]"

definition cat_technology :: ustring where
  \<comment> \<open>U+79D1 U+6280\<close>
  "cat_technology = [0x79D1, 0x6280]"

definition cat_sports :: ustring where
  \<comment> \<open>U+4F53 U+80B2\<close>
  "cat_sports = [0x4F53, 0x80B2]"

definition cat_entertainment :: ustring where
  \<comment> \<open>U+5A31 U+4E50\<close>
  "cat_entertainment = [0x5A31, 0x4E50]"

definition cat_international :: ustring where
  \<comment> \<open>U+56FD U+9645\<close>
  "cat_international = [0x56FD, 0x9645]"

definition cat_military :: ustring where
  \<comment> \<open>U+519B U+4E8B\<close>
  "cat_military = [0x519B, 0x4E8B]"

definition cat_education :: ustring where
  \<comment> \<open>U+6559 U+80B2\<close>
  "cat_education = [0x6559, 0x80B2]"

definition cat_health :: ustring where
  \<comment> \<open>U+5065 U+5EB7\<close>
  "cat_health = [0x5065, 0x5EB7]"

definition cat_environment :: ustring where
  \<comment> \<open>U+73AF U+5883\<close>
  "cat_environment = [0x73AF, 0x5883]"

definition cat_culture :: ustring where
  \<comment> \<open>U+6587 U+5316\<close>
  "cat_culture = [0x6587, 0x5316]"

definition cat_travel :: ustring where
  \<comment> \<open>U+65C5 U+6E38\<close>
  "cat_travel = [0x65C5, 0x6E38]"

definition cat_finance :: ustring where
  \<comment> \<open>U+8D22 U+7ECF\<close>
  "cat_finance = [0x8D22, 0x7ECF]"

definition categories :: "ustring list" where
  \<comment> \<open>\<open>self.categories\<close> of \<open>NewsConverter\<close>\<close>
  "categories = [cat_politics, cat_economy, cat_society, cat_technology, cat_sports, cat_entertainment, cat_international, cat_military, cat_education, cat_health]"

definition default_authors :: "ustring list" where
  "default_authors = [[0x8BB0, 0x8005],
     [0x7F16, 0x8F91],
     [0x901A, 0x8BAF, 0x5458],
     [0x7279, 0x7EA6, 0x8BB0, 0x8005]]"

definition keyword_category_map :: "(ustring \<times> ustring list) list" where
  \<comment> \<open>the dict literal, in its insertion order\<close>
  "keyword_category_map =
     [(cat_politics,
        [[0x653F, 0x6CBB],
         [0x653F, 0x5E9C],
         [0x653F, 0x7B56],
         [0x9886, 0x5BFC],
         [0x515A],
         [0x56FD, 0x5BB6],
         [0x5916, 0x4EA4],
         [0x4F1A, 0x8BAE],
         [0x51B3, 0x7B56],
         [0x6CBB, 0x7406]]),
      (cat_economy,
        [[0x7ECF, 0x6D4E],
         [0x80A1, 0x5E02],
         [0x80A1, 0x6307],
         [0x91D1, 0x878D],
         [0x6295, 0x8D44],
         [0x8D38, 0x6613],
         asc ''GDP'',
         [0x901A, 0x80C0],
         [0x94F6, 0x884C],
         [0x4F01, 0x4E1A],
         [0x4E0A, 0x5E02],
         [0x677F, 0x5757],
         [0x6DA8, 0x5E45],
         [0x4EA4, 0x6613]]),
      (cat_technology,
        [[0x79D1, 0x6280],
         asc ''AI'',
         [0x4EBA, 0x5DE5, 0x667A, 0x80FD],
         [0x4E92, 0x8054, 0x7F51],
         asc ''5G'',
         [0x82AF, 0x7247],
         [0x521B, 0x65B0],
         [0x6280, 0x672F],
         [0x6570, 0x5B57],
         [0x667A, 0x80FD]]),
      (cat_society,
        [[0x793E, 0x4F1A],
         [0x6C11, 0x751F],
         [0x6559, 0x80B2],
         [0x533B, 0x7597],
         [0x5C31, 0x4E1A],
         [0x4F4F, 0x623F],
         [0x73AF, 0x5883],
         [0x5B89, 0x5168],
         [0x6587, 0x5316]]),
      (cat_international,
        [[0x56FD, 0x9645],
         [0x7F8E, 0x56FD],
         [0x6B27, 0x6D32],
         [0x65E5, 0x672C],
         [0x97E9, 0x56FD],
         [0x4FC4, 0x7F57, 0x65AF],
         [0x5168, 0x7403],
         [0x4E16, 0x754C]]),
      (cat_military,
        [[0x519B, 0x4E8B],
         [0x56FD, 0x9632],
         [0x519B, 0x961F],
         [0x6218, 0x4E89],
         [0x6B66, 0x5668],
         [0x5B89, 0x5168]]),
      (cat_sports,
        [[0x4F53, 0x80B2],
         [0x6BD4, 0x8D5B],
         [0x8FD0, 0x52A8],
         [0x8DB3, 0x7403],
         [0x7BEE, 0x7403],
         [0x5965, 0x8FD0]]),
      (cat_entertainment,
        [[0x5A31, 0x4E50],
         [0x660E, 0x661F],
         [0x7535, 0x5F71],
         [0x97F3, 0x4E50],
         [0x7EFC, 0x827A],
         [0x6F14, 0x51FA]]),
      (cat_health,
        [[0x5065, 0x5EB7],
         [0x533B, 0x7597],
         [0x75AB, 0x60C5],
         [0x75C5, 0x6BD2],
         [0x6CBB, 0x7597],
         [0x836F, 0x7269]]),
      (cat_education,
        [[0x6559, 0x80B2],
         [0x5B66, 0x6821],
         [0x5927, 0x5B66],
         [0x62DB, 0x751F],
         [0x8003, 0x8BD5],
         [0x5B66, 0x751F]])]"

definition categories2 :: "ustring list" where
  \<comment> \<open>\<open>self.categories\<close> of \<open>NewsDataConverter\<close>\<close>
  "categories2 = [cat_politics, cat_economy, cat_technology, cat_sports, cat_entertainment, cat_society, cat_international, cat_military, cat_education, cat_health, cat_environment, cat_culture, cat_travel, cat_finance]"

definition additional_tags :: "ustring list" where
  "additional_tags = [[0x70ED, 0x70B9],
     [0x65B0, 0x95FB],
     [0x91CD, 0x8981],
     [0x5173, 0x6CE8]]"

definition key_title :: ustring where
  \<comment> \<open>U+6807 U+9898\<close>
  "key_title = [0x6807, 0x9898]"

definition key_content :: ustring where
  \<comment> \<open>U+6B63 U+6587\<close>
  "key_content = [0x6B63, 0x6587]"

definition key_source :: ustring where
  \<comment> \<open>U+6765 U+6E90\<close>
  "key_source = [0x6765, 0x6E90]"

definition key_url :: ustring where
  \<comment> \<open>U+9875 U+9762 U+7F51 U+5740\<close>
  "key_url = [0x9875, 0x9762, 0x7F51, 0x5740]"

definition key_publish_time :: ustring where
  \<comment> \<open>U+53D1 U+5E03 U+65F6 U+95F4\<close>
  "key_publish_time = [0x53D1, 0x5E03, 0x65F6, 0x95F4]"

definition key_keyword :: ustring where
  \<comment> \<open>U+5173 U+952E U+8BCD\<close>
  "key_keyword = [0x5173, 0x952E, 0x8BCD]"

definition key_image :: ustring where
  \<comment> \<open>U+56FE U+7247\<close>
  "key_image = [0x56FE, 0x7247]"

definition key_summary :: ustring where
  \<comment> \<open>U+7B80 U+4ECB\<close>
  "key_summary = [0x7B80, 0x4ECB]"

definition unknown_source :: ustring where
  \<comment> \<open>U+672A U+77E5 U+6765 U+6E90\<close>
  "unknown_source = [0x672A, 0x77E5, 0x6765, 0x6E90]"

definition tag_hot :: ustring where
  \<comment> \<open>U+70ED U+70B9\<close>
  "tag_hot = [0x70ED, 0x70B9]"

definition empty_body_message :: ustring where
  \<comment> \<open>U+6B63 U+6587 U+4E3A U+7A7A U+FF0C U+8DF3 U+8FC7 U+6B64 U+6761 U+65B0 U+95FB\<close>
  "empty_body_message = [0x6B63, 0x6587, 0x4E3A, 0x7A7A, 0xFF0C, 0x8DF3, 0x8FC7, 0x6B64, 0x6761, 0x65B0, 0x95FB]"

definition empty_body_mark :: ustring where
  \<comment> \<open>U+6B63 U+6587 U+4E3A U+7A7A\<close>
  "empty_body_mark = [0x6B63, 0x6587, 0x4E3A, 0x7A7A]"


subsection \<open>\<open>analyze_category_with_ai\<close>\<close>

function count_sub :: "ustring \<Rightarrow> ustring \<Rightarrow> nat" where
  \<comment> \<open>\<open>text.count(sub)\<close>: occurrences from left to right, not overlapping; the empty
      string occurs \<open>len(text) + 1\<close> times\<close>
  "count_sub [] sub = (if sub = [] then 1 else 0)"
| "count_sub (c # cs) sub =
     (if sub = [] then Suc (count_sub cs sub)
      else if prefix sub (c # cs) then Suc (count_sub (drop (length sub) (c # cs)) sub)
      else count_sub cs sub)"
  by pat_completeness auto
termination
  by (relation "measure (\<lambda>(t, s). length t)") auto

definition keyword_score :: "ustring \<Rightarrow> ustring list \<Rightarrow> nat" where
  \<comment> \<open>the inner loop: \<open>score += text.count(keyword)\<close>\<close>
  "keyword_score text keywords = sum_list (map (count_sub text) keywords)"

definition category_scores :: "ustring \<Rightarrow> (ustring \<times> nat) list" where
  \<comment> \<open>the dict \<open>category_scores\<close> in insertion order: only positive scores are stored\<close>
  "category_scores text =
     filter (\<lambda>(category, score). 0 < score)
       (map (\<lambda>(category, keywords). (category, keyword_score text keywords))
          keyword_category_map)"

fun max_by_score :: "(ustring \<times> nat) \<Rightarrow> (ustring \<times> nat) list \<Rightarrow> (ustring \<times> nat)" where
  \<comment> \<open>\<open>max(items, key=lambda x: x[1])\<close>: the first of the maximal items\<close>
  "max_by_score best [] = best"
| "max_by_score best (x # xs) =
     (if snd best < snd x then max_by_score x xs else max_by_score best xs)"

definition analyze_category_with_ai :: "ustring \<Rightarrow> ustring \<Rightarrow> ustring" where
  "analyze_category_with_ai ttl body =
     (let text = ttl @ asc '' '' @ take 500 body
      in case category_scores text of
           [] \<Rightarrow> cat_society
         | x # xs \<Rightarrow> fst (max_by_score x xs))"

subsection \<open>\<open>parse_datetime\<close>\<close>

definition ch_year :: uchar where
  \<comment> \<open>U+5E74, the year mark\<close>
  "ch_year = 0x5E74"

definition ch_month :: uchar where
  \<comment> \<open>U+6708, the month mark\<close>
  "ch_month = 0x6708"

definition ch_day :: uchar where
  \<comment> \<open>U+65E5, the day mark\<close>
  "ch_day = 0x65E5"

definition date_pattern :: "rx list" where
  \<comment> \<open>four digits, year mark, one or two digits, month mark, one or two digits, day
      mark, one or two digits, colon, one or two digits: the five digit groups are the
      groups of the pattern\<close>
  "date_pattern =
     [rx_rep is_decimal 4 4, rx_lit [ch_year], rx_rep is_decimal 1 2, rx_lit [ch_month],
      rx_rep is_decimal 1 2, rx_lit [ch_day], rx_rep is_decimal 1 2, rx_lit (asc '':''),
      rx_rep is_decimal 1 2]"

definition parse_datetime :: "datetime \<Rightarrow> ustring \<Rightarrow> ustring" where
  \<comment> \<open>the first argument is the clock, read when the pattern is not found. On a string
      nothing in the \<open>try\<close> block raises, so the \<open>except\<close> branch has no case here\<close>
  "parse_datetime now date_string =
     (if ch_year \<in> set date_string \<and> ch_month \<in> set date_string \<and> ch_day \<in> set date_string
      then (case re_search date_pattern date_string of
              Some [y, _, m, _, d, _, h, _, mi] \<Rightarrow>
                y @ asc ''-'' @ zfill 2 m @ asc ''-'' @ zfill 2 d @ asc '' '' @
                zfill 2 h @ asc '':'' @ zfill 2 mi @ asc '':00''
            | _ \<Rightarrow> strftime now)
      else strftime now)"

subsection \<open>\<open>generate_guid\<close> and \<open>extract_domain_name\<close>\<close>

definition generate_guid :: "pylib \<Rightarrow> ustring \<Rightarrow> ustring \<Rightarrow> ustring \<Rightarrow> exn + ustring" where
  \<comment> \<open>the second argument is \<open>str(datetime.now().timestamp())\<close>\<close>
  "generate_guid lib salt url ttl =
     (let unique_string = url @ ttl @ salt
      in if encodable unique_string then Inr (md5_hexdigest lib unique_string)
         else Inl UnicodeEncodeError)"

definition extract_domain_name :: "pylib \<Rightarrow> ustring \<Rightarrow> ustring" where
  "extract_domain_name lib url =
     (case urlparse_netloc lib url of
        None \<Rightarrow> unknown_source
      | Some domain \<Rightarrow> if prefix (asc ''www.'') domain then drop 4 domain else domain)"

subsection \<open>\<open>generate_random_stats\<close> and \<open>calculate_hotness_score\<close>\<close>

definition generate_random_stats :: "nat \<Rightarrow> nat \<Rightarrow> nat \<Rightarrow> nat \<Rightarrow> stats" where
  "generate_random_stats r1 r2 r3 r4 =
     \<lparr>view_count = randint 100 10000 r1,
      like_count = randint 10 1000 r2,
      comment_count = randint 5 500 r3,
      share_count = randint 0 200 r4\<rparr>"

definition calculate_hotness_score :: "stats \<Rightarrow> rat option" where
  \<comment> \<open>the counts times \<open>2\<close>, \<open>3\<close> and \<open>5\<close> are products of \<open>int\<close>s; each is converted
      when it is added to the float on its left\<close>
  "calculate_hotness_score st =
     do {
       tenth \<leftarrow> double_round (1 / 10);
       views \<leftarrow> float_of_int (view_count st);
       a \<leftarrow> fmul views tenth;
       likes \<leftarrow> float_of_int (like_count st * 2);
       b \<leftarrow> fadd a likes;
       comments \<leftarrow> float_of_int (comment_count st * 3);
       c \<leftarrow> fadd b comments;
       shares \<leftarrow> float_of_int (share_count st * 5);
       score \<leftarrow> fadd c shares;
       py_round score 1
     }"

subsection \<open>\<open>convert_news_item\<close>\<close>

text \<open>
  What one conversion reads from outside: the clock of \<open>parse_datetime\<close>, the time
  stamp that salts the GUID, and the raw draws for the four counts and the author.
\<close>

record env =
  now_parse :: datetime
  guid_salt :: ustring
  draw_view :: nat
  draw_like :: nat
  draw_comment :: nat
  draw_share :: nat
  draw_author :: nat

definition convert_news_item :: "pylib \<Rightarrow> env \<Rightarrow> source_item \<Rightarrow> exn + news_item" where
  "convert_news_item lib e source_item =
     (let ttl = item_get source_item key_title [];
          body = item_get source_item key_content [];
          source_name = item_get source_item key_source [];
          url = item_get source_item key_url [];
          publish_time = item_get source_item key_publish_time []
      in if body = [] \<or> strip body = [] then Inl (ValueError empty_body_message)
         else
           let cat = analyze_category_with_ai ttl body;
               summ = generate_summary body 200;
               source_name = (if source_name = [] then extract_domain_name lib url
                              else source_name);
               st = generate_random_stats (draw_view e) (draw_like e) (draw_comment e)
                      (draw_share e)
           in case calculate_hotness_score st of
                None \<Rightarrow> Inl OverflowError
              | Some hot \<Rightarrow>
                  let published = parse_datetime (now_parse e) publish_time
                  in case generate_guid lib (guid_salt e) url ttl of
                       Inl err \<Rightarrow> Inl err
                     | Inr g \<Rightarrow>
                         Inr \<lparr>view_count = view_count st,
                              like_count = like_count st,
                              comment_count = comment_count st,
                              share_count = share_count st,
                              title = ttl,
                              content = body,
                              summary = summ,
                              description = summ,
                              source = source_name,
                              category = cat,
                              published_at = published,
                              created_by = None,
                              is_active = True,
                              source_type = asc ''manual'',
                              rss_source_id = None,
                              link = url,
                              guid = g,
                              author = choice default_authors (draw_author e),
                              image_url = [],
                              tags = json_dumps_list [cat, cat, tag_hot],
                              language = asc ''zh'',
                              hotness_score = hot,
                              status = asc ''published'',
                              is_processed = True\<rparr>)"

subsection \<open>\<open>convert_file\<close>\<close>

text \<open>
  The batch entry point. Its inputs from outside are what opening and parsing the
  source file gives (an exception or the JSON document), the environment of each
  record by its position, and the exception, if any, of writing the target file. It
  catches every exception and prints a message; the result says which message, or what
  was written and how many records were skipped for an empty body.

  A record whose values are not all strings is outside the data model; the embedding
  gives it the \<open>TypeError\<close> that such a record raises in most cases, a failure of that
  record alone. An element that is no object makes \<open>item.get\<close> raise inside the handler
  of the loop, which ends the run.
\<close>

datatype outcome = Reported exn | Written "news_item list" nat

definition format_message :: ustring where
  \<comment> \<open>the text of the \<open>ValueError\<close> for a document that is neither object nor array\<close>
  "format_message = [0x6E90, 0x6570, 0x636E, 0x683C, 0x5F0F, 0x4E0D, 0x6B63, 0x786E, 0xFF0C, 0x5E94, 0x8BE5, 0x662F, 0x4A, 0x53, 0x4F, 0x4E, 0x5BF9, 0x8C61, 0x6216, 0x6570, 0x7EC4]"

fun convert_loop ::
  "pylib \<Rightarrow> (nat \<Rightarrow> env) \<Rightarrow> nat \<Rightarrow> json list \<Rightarrow> news_item list \<Rightarrow> nat
   \<Rightarrow> exn + (news_item list \<times> nat)" where
  "convert_loop lib envs i [] converted_data skipped_count = Inr (converted_data, skipped_count)"
| "convert_loop lib envs i (item # rest) converted_data skipped_count =
     (case item of
        JObj kvs \<Rightarrow>
          (case (case as_source_item item of
                   Some r \<Rightarrow> convert_news_item lib (envs i) r
                 | None \<Rightarrow> Inl TypeError) of
             Inr converted_item \<Rightarrow>
               convert_loop lib envs (Suc i) rest (converted_data @ [converted_item]) skipped_count
           | Inl (ValueError msg) \<Rightarrow>
               if contains msg empty_body_mark
               then convert_loop lib envs (Suc i) rest converted_data (Suc skipped_count)
               else convert_loop lib envs (Suc i) rest converted_data skipped_count
           | Inl _ \<Rightarrow> convert_loop lib envs (Suc i) rest converted_data skipped_count)
      | _ \<Rightarrow> Inl AttributeError)"

definition convert_file :: "pylib \<Rightarrow> (nat \<Rightarrow> env) \<Rightarrow> exn + json \<Rightarrow> exn option \<Rightarrow> outcome" where
  "convert_file lib envs loaded write_error =
     (case loaded of
        Inl err \<Rightarrow> Reported err
      | Inr source_data \<Rightarrow>
          (case (case source_data of
                   JObj kvs \<Rightarrow> Inr [source_data]
                 | JArr xs \<Rightarrow> Inr xs
                 | _ \<Rightarrow> Inl (ValueError format_message)) of
             Inl err \<Rightarrow> Reported err
           | Inr items \<Rightarrow>
               (case convert_loop lib envs 0 items [] 0 of
                  Inl err \<Rightarrow> Reported err
                | Inr (converted_data, skipped_count) \<Rightarrow>
                    (case write_error of
                       Some err \<Rightarrow> Reported err
                     | None \<Rightarrow> Written converted_data skipped_count))))"

section \<open>Variant 2: \<open>NewsDataConverter\<close> (scripts/convert_localization_to_news.py)\<close>

text \<open>
  What one conversion reads from outside: the clock at three places (the fallback of
  \<open>parse_datetime\<close>, its \<open>except\<close> handler, and \<open>calculate_hotness_score\<close>), the time
  stamp that salts the GUID, and the raw draws of the random generator.
\<close>

record env2 =
  clock_parse :: datetime
  clock_handler :: datetime
  clock_hot :: datetime
  salt :: ustring
  r_base :: nat
  r_like :: nat
  r_comment :: nat
  r_share :: nat
  r_days :: nat
  r_days_handler :: nat
  r_uniform :: rat
  r_category :: nat
  r_tag_count :: nat
  r_tag1 :: nat
  r_tag2 :: nat

subsection \<open>\<open>parse_datetime\<close>\<close>

definition js_marker :: ustring where
  "js_marker = asc ''document.getElementById''"

definition two_digits :: rx where
  \<comment> \<open>\<open>\d{2}\<close>\<close>
  "two_digits = rx_rep is_decimal 2 2"

definition short_pattern :: "rx list" where
  \<comment> \<open>year, month, day, hour and minute with their marks, every field of fixed width\<close>
  "short_pattern =
     [rx_rep is_decimal 4 4, rx_lit [ch_year], two_digits, rx_lit [ch_month], two_digits,
      rx_lit [ch_day], two_digits, rx_lit (asc '':''), two_digits]"

definition full_pattern :: "rx list" where
  \<comment> \<open>the same with seconds\<close>
  "full_pattern = short_pattern @ [rx_lit (asc '':''), two_digits]"

definition format_short :: "rx list" where
  \<comment> \<open>the format of \<open>strptime\<close> without seconds\<close>
  "format_short =
     [rx_Y, rx_lit [ch_year], rx_m, rx_lit [ch_month], rx_d, rx_lit [ch_day], rx_H,
      rx_lit (asc '':''), rx_M]"

definition format_full :: "rx list" where
  "format_full = format_short @ [rx_lit (asc '':''), rx_S]"

definition format_iso :: "rx list" where
  \<comment> \<open>\<open>'%Y-%m-%d %H:%M:%S'\<close>\<close>
  "format_iso =
     [rx_Y, rx_lit (asc ''-''), rx_m, rx_lit (asc ''-''), rx_d, rx_plus isspace, rx_H,
      rx_lit (asc '':''), rx_M, rx_lit (asc '':''), rx_S]"

definition random_past :: "datetime \<Rightarrow> nat \<Rightarrow> exn + ustring" where
  \<comment> \<open>the clock less 1 to 30 days, formatted\<close>
  "random_past now r =
     (case minus_days now (randint 1 30 r) of
        None \<Rightarrow> Inl OverflowError
      | Some t \<Rightarrow> Inr (strftime t))"

definition parse_datetime2 :: "env2 \<Rightarrow> ustring \<Rightarrow> exn + ustring" where
  \<comment> \<open>an exception in the \<open>try\<close> block, which is the \<open>ValueError\<close> of \<open>strptime\<close> or
      the \<open>OverflowError\<close> of the subtraction, leads to the handler; an exception of the
      handler leaves the function\<close>
  "parse_datetime2 e date_str0 =
     (let date_str =
            (if contains date_str0 js_marker
             then (case re_search short_pattern date_str0 of
                     Some gs \<Rightarrow> concat gs
                   | None \<Rightarrow> date_str0)
             else date_str0);
          handler = random_past (clock_handler e) (r_days_handler e)
      in if re_match full_pattern date_str \<noteq> None
         then (case strptime format_full date_str of
                 Some t \<Rightarrow> Inr (strftime t)
               | None \<Rightarrow> handler)
         else if re_match short_pattern date_str \<noteq> None
         then (case strptime format_short date_str of
                 Some t \<Rightarrow> Inr (strftime t)
               | None \<Rightarrow> handler)
         else (case random_past (clock_parse e) (r_days e) of
                 Inr s \<Rightarrow> Inr s
               | Inl _ \<Rightarrow> handler))"

subsection \<open>\<open>generate_guid\<close>, \<open>generate_random_stats\<close>, \<open>calculate_hotness_score\<close>\<close>

definition generate_guid2 :: "pylib \<Rightarrow> ustring \<Rightarrow> ustring \<Rightarrow> ustring \<Rightarrow> exn + ustring" where
  \<comment> \<open>the second argument is \<open>datetime.now().isoformat()\<close>\<close>
  "generate_guid2 lib stamp ttl src =
     (let text = ttl @ asc ''_'' @ src @ asc ''_'' @ stamp
      in if encodable text then Inr (md5_hexdigest lib text) else Inl UnicodeEncodeError)"

definition trunc :: "rat \<Rightarrow> int" where
  \<comment> \<open>\<open>int(x)\<close> of a float: towards zero\<close>
  "trunc x = (if 0 \<le> x then \<lfloor>x\<rfloor> else \<lceil>x\<rceil>)"

definition generate_random_stats2 :: "nat \<Rightarrow> nat \<Rightarrow> nat \<Rightarrow> nat \<Rightarrow> stats option" where
  "generate_random_stats2 r1 r2 r3 r4 =
     (let base_views = randint 100 10000 r1
      in do {
           b \<leftarrow> float_of_int base_views;
           c001 \<leftarrow> double_round (1 / 100);
           lo \<leftarrow> fmul b c001;
           c01 \<leftarrow> double_round (1 / 10);
           hi \<leftarrow> fmul b c01;
           c005 \<leftarrow> double_round (5 / 100);
           cm \<leftarrow> fmul b c005;
           c002 \<leftarrow> double_round (2 / 100);
           sh \<leftarrow> fmul b c002;
           Some \<lparr>view_count = base_views,
                 like_count = randint (trunc lo) (trunc hi) r2,
                 comment_count = randint 0 (trunc cm) r3,
                 share_count = randint 0 (trunc sh) r4\<rparr>
         })"

definition calculate_hotness_score2 :: "datetime \<Rightarrow> rat \<Rightarrow> stats \<Rightarrow> ustring \<Rightarrow> rat option" where
  \<comment> \<open>the first argument is the clock, the second the draw of \<open>random.uniform\<close> for the
      handler. \<open>None\<close> in the \<open>try\<close> block stands for its exceptions and leads to the
      handler\<close>
  "calculate_hotness_score2 now u st pub_str =
     (case (case strptime format_iso pub_str of
              None \<Rightarrow> None
            | Some pub_date \<Rightarrow>
                do {
                  v \<leftarrow> float_of_int (view_count st);
                  v1 \<leftarrow> fmul v 1;
                  l \<leftarrow> float_of_int (like_count st);
                  l5 \<leftarrow> fmul l 5;
                  s1 \<leftarrow> fadd v1 l5;
                  c \<leftarrow> float_of_int (comment_count st);
                  c3 \<leftarrow> fmul c 3;
                  s2 \<leftarrow> fadd s1 c3;
                  s \<leftarrow> float_of_int (share_count st);
                  s10 \<leftarrow> fmul s 10;
                  base_score \<leftarrow> fadd s2 s10;
                  days_old \<leftarrow> float_of_int (days_between now pub_date);
                  tenth \<leftarrow> double_round (1 / 10);
                  decay \<leftarrow> fmul days_old tenth;
                  rest \<leftarrow> double_round (1 - decay);
                  product \<leftarrow> fmul base_score (max tenth rest);
                  py_round product 2
                }) of
        Some score \<Rightarrow> Some score
      | None \<Rightarrow> py_round u 2)"

subsection \<open>\<open>extract_tags\<close> and \<open>clean_text\<close>\<close>

definition sample :: "'a list \<Rightarrow> nat \<Rightarrow> nat \<Rightarrow> nat \<Rightarrow> 'a list" where
  \<comment> \<open>\<open>random.sample(xs, k)\<close> for \<open>k \<le> 2\<close>: \<open>k\<close> different positions, the second drawn
      among those the first left\<close>
  "sample xs k r1 r2 =
     (if k = 0 then []
      else let i = r1 mod length xs;
               rest = take i xs @ drop (Suc i) xs
           in xs ! i # (if k = 1 then [] else [rest ! (r2 mod length rest)]))"

definition tag_list :: "env2 \<Rightarrow> ustring \<Rightarrow> ustring \<Rightarrow> ustring list" where
  \<comment> \<open>the list \<open>tags\<close> of \<open>extract_tags\<close> before it is serialized\<close>
  "tag_list e keyword cat =
     (if keyword \<noteq> [] then [keyword] else []) @
     (if cat \<noteq> [] then [cat] else []) @
     sample additional_tags (nat (randint 0 2 (r_tag_count e))) (r_tag1 e) (r_tag2 e)"

definition extract_tags :: "env2 \<Rightarrow> ustring \<Rightarrow> ustring \<Rightarrow> ustring" where
  "extract_tags e keyword cat = json_dumps_list (tag_list e keyword cat)"

fun unify_newlines :: "ustring \<Rightarrow> ustring" where
  \<comment> \<open>\<open>re.sub(r'\r\n|\r|\n', '\n', text)\<close>\<close>
  "unify_newlines [] = []"
| "unify_newlines (c # cs) =
     (if c = 0xD then
        (case cs of
           [] \<Rightarrow> [0xA]
         | c' # cs' \<Rightarrow> if c' = 0xA then 0xA # unify_newlines cs' else 0xA # unify_newlines cs)
      else c # unify_newlines cs)"

fun squeeze_newlines :: "ustring \<Rightarrow> ustring" where
  \<comment> \<open>\<open>re.sub(r'\n+', '\n', text)\<close>\<close>
  "squeeze_newlines [] = []"
| "squeeze_newlines [c] = [c]"
| "squeeze_newlines (c # c' # cs) =
     (if c = 0xA \<and> c' = 0xA then squeeze_newlines (c' # cs)
      else c # squeeze_newlines (c' # cs))"

definition clean_text :: "ustring \<Rightarrow> ustring" where
  "clean_text text = (if text = [] then [] else strip (squeeze_newlines (unify_newlines text)))"

subsection \<open>\<open>convert_news_item\<close>\<close>

definition convert_news_item2 :: "pylib \<Rightarrow> env2 \<Rightarrow> source_item \<Rightarrow> exn + news_item" where
  "convert_news_item2 lib e item =
     (let keyword = item_get item key_keyword [];
          ttl = item_get item key_title [];
          image = item_get item key_image [];
          summ = item_get item key_summary [];
          src = item_get item key_source [];
          published_time = item_get item key_publish_time [];
          body = item_get item key_content [];
          url = item_get item key_url []
      in case generate_random_stats2 (r_base e) (r_like e) (r_comment e) (r_share e) of
           None \<Rightarrow> Inl OverflowError
         | Some st \<Rightarrow>
             (case parse_datetime2 e published_time of
                Inl err \<Rightarrow> Inl err
              | Inr published \<Rightarrow>
                  (case calculate_hotness_score2 (clock_hot e) (r_uniform e) st published of
                     None \<Rightarrow> Inl OverflowError
                   | Some hot \<Rightarrow>
                       (case generate_guid2 lib (salt e) ttl src of
                          Inl err \<Rightarrow> Inl err
                        | Inr g \<Rightarrow>
                            Inr \<lparr>view_count = view_count st,
                                 like_count = like_count st,
                                 comment_count = comment_count st,
                                 share_count = share_count st,
                                 title = clean_text ttl,
                                 content = clean_text body,
                                 summary = clean_text summ,
                                 description = clean_text summ,
                                 source = (if src \<noteq> [] then src else unknown_source),
                                 category = (if keyword \<in> set categories2 then keyword
                                             else choice categories2 (r_category e)),
                                 published_at = published,
                                 created_by = None,
                                 is_active = True,
                                 source_type = asc ''manual'',
                                 rss_source_id = None,
                                 link = url,
                                 guid = g,
                                 author = [],
                                 image_url = image,
                                 tags = extract_tags e keyword keyword,
                                 language = asc ''zh'',
                                 hotness_score = hot,
                                 status = asc ''published'',
                                 is_processed = True\<rparr>))))"

subsection \<open>\<open>convert_all\<close>\<close>

text \<open>
  The batch entry point of variant 2 prints and raises again what it catches. Its result
  is the exception, together with the document it had written before, or the document.
  As in variant 1, a record that is not an object of strings counts as a failed record;
  here every failed record is passed over.
\<close>

record envelope =
  news_items :: "news_item list"
  total_count :: nat
  conversion_time :: ustring
  source_file :: ustring

datatype outcome2 = Raised exn "envelope option" | Completed envelope

definition sheet_key :: ustring where
  "sheet_key = asc ''Sheet1''"

definition sheet_items :: "json \<Rightarrow> exn + json list option" where
  \<comment> \<open>the test \<open>"Sheet1" in data and isinstance(data["Sheet1"], list)\<close>: the list, or
      \<open>None\<close> when the test is false; \<open>in\<close> is key lookup on an object, membership on an
      array, substring search on a string, and a \<open>TypeError\<close> on the rest, and a
      subscript by a string is a \<open>TypeError\<close> on arrays and strings\<close>
  "sheet_items data =
     (case data of
        JObj kvs \<Rightarrow>
          (case map_of (rev kvs) sheet_key of
             Some (JArr xs) \<Rightarrow> Inr (Some xs)
           | _ \<Rightarrow> Inr None)
      | JArr xs \<Rightarrow> if JStr sheet_key \<in> set xs then Inl TypeError else Inr None
      | JStr s \<Rightarrow> if contains s sheet_key then Inl TypeError else Inr None
      | _ \<Rightarrow> Inl TypeError)"

definition sheet_length :: "json \<Rightarrow> exn + nat" where
  \<comment> \<open>\<open>len(data.get('Sheet1', []))\<close> of the closing report\<close>
  "sheet_length data =
     (case data of
        JObj kvs \<Rightarrow>
          (case map_of (rev kvs) sheet_key of
             None \<Rightarrow> Inr 0
           | Some (JArr xs) \<Rightarrow> Inr (length xs)
           | Some (JStr s) \<Rightarrow> Inr (length s)
           | Some (JObj kvs') \<Rightarrow> Inr (length (remdups (map fst kvs')))
           | Some _ \<Rightarrow> Inl TypeError)
      | _ \<Rightarrow> Inl AttributeError)"

fun convert_items :: "pylib \<Rightarrow> (nat \<Rightarrow> env2) \<Rightarrow> nat \<Rightarrow> json list \<Rightarrow> news_item list" where
  \<comment> \<open>the loop over the sheet: a record that raises is passed over\<close>
  "convert_items lib envs i [] = []"
| "convert_items lib envs i (item # rest) =
     (case (case as_source_item item of
              Some r \<Rightarrow> convert_news_item2 lib (envs i) r
            | None \<Rightarrow> Inl TypeError) of
        Inr news_item \<Rightarrow> news_item # convert_items lib envs (Suc i) rest
      | Inl _ \<Rightarrow> convert_items lib envs (Suc i) rest)"

definition convert_all ::
  "pylib \<Rightarrow> (nat \<Rightarrow> env2) \<Rightarrow> ustring \<Rightarrow> ustring \<Rightarrow> exn + json \<Rightarrow> exn option \<Rightarrow> outcome2" where
  \<comment> \<open>the arguments after the environment: the name of the input file, the time stamp
      of the envelope, what opening and parsing the input gives, and the exception, if
      any, of writing the output\<close>
  "convert_all lib envs input_file stamp loaded write_error =
     (case loaded of
        Inl err \<Rightarrow> Raised err None
      | Inr data \<Rightarrow>
          (case sheet_items data of
             Inl err \<Rightarrow> Raised err None
           | Inr sheet \<Rightarrow>
               (let items = (case sheet of
                               Some xs \<Rightarrow> convert_items lib envs 0 xs
                             | None \<Rightarrow> []);
                    output_data = \<lparr>news_items = items, total_count = length items,
                                    conversion_time = stamp, source_file = input_file\<rparr>
                in case write_error of
                     Some err \<Rightarrow> Raised err None
                   | None \<Rightarrow>
                       (case sheet_length data of
                          Inl err \<Rightarrow> Raised err (Some output_data)
                        | Inr n \<Rightarrow> Completed output_data))))"

subsection \<open>\<open>generate_sql_inserts\<close>\<close>

text \<open>
  The SQL emitter reads the records back from the JSON document, where a field is
  \<open>null\<close>, a truth value, a number or a string, and formats each by its type.
\<close>

datatype sqlval = SNone | SBool bool | SInt int | SFloat rat | SText ustring

fun double_quotes :: "ustring \<Rightarrow> ustring" where
  \<comment> \<open>\<open>s.replace("'", "''")\<close>\<close>
  "double_quotes [] = []"
| "double_quotes (c # cs) =
     (if c = 0x27 then 0x27 # 0x27 # double_quotes cs else c # double_quotes cs)"

definition escape_sql :: "pylib \<Rightarrow> sqlval \<Rightarrow> ustring" where
  "escape_sql lib v =
     (case v of
        SNone \<Rightarrow> asc ''NULL''
      | SBool b \<Rightarrow> (if b then asc ''true'' else asc ''false'')
      | SInt n \<Rightarrow> str_int n
      | SFloat x \<Rightarrow> float_str lib x
      | SText s \<Rightarrow> [0x27] @ double_quotes s @ [0x27])"

definition nl :: ustring where
  \<comment> \<open>the line feed\<close>
  "nl = [0xA]"

definition sql_head :: ustring where
  \<comment> \<open>the statement up to its first value\<close>
  "sql_head =
     asc ''INSERT INTO news ('' @ nl @
     asc ''    title, content, summary, description, source, category, published_at,'' @ nl @
     asc ''    created_by, is_active, source_type, rss_source_id, link, guid,'' @ nl @
     asc ''    author, image_url, tags, language, view_count, like_count,'' @ nl @
     asc ''    comment_count, share_count, hotness_score, status, is_processed,'' @ nl @
     asc ''    created_at, updated_at'' @ nl @
     asc '') VALUES ('' @ nl @
     asc ''    ''"

definition sql_sep :: ustring where
  \<comment> \<open>between two values: a comma, a line feed and the indentation\<close>
  "sql_sep = asc '','' @ nl @ asc ''    ''"

definition sql_tail :: ustring where
  \<comment> \<open>after the last value\<close>
  "sql_tail = asc '','' @ nl @ asc ''    NOW(),'' @ nl @ asc ''    NOW()'' @ nl @ asc '');'' @ nl @ nl"

definition opt_int :: "int option \<Rightarrow> sqlval" where
  \<comment> \<open>a nullable key\<close>
  "opt_int v = (case v of None \<Rightarrow> SNone | Some n \<Rightarrow> SInt n)"

definition sql_values :: "pylib \<Rightarrow> news_item \<Rightarrow> ustring list" where
  \<comment> \<open>the 24 values in the order of the statement: the four counts and the score are
      formatted as they are, every other field goes through \<open>escape_sql\<close>\<close>
  "sql_values lib item =
     [escape_sql lib (SText (title item)),
      escape_sql lib (SText (content item)),
      escape_sql lib (SText (summary item)),
      escape_sql lib (SText (description item)),
      escape_sql lib (SText (source item)),
      escape_sql lib (SText (category item)),
      escape_sql lib (SText (published_at item)),
      escape_sql lib (opt_int (created_by item)),
      escape_sql lib (SBool (is_active item)),
      escape_sql lib (SText (source_type item)),
      escape_sql lib (opt_int (rss_source_id item)),
      escape_sql lib (SText (link item)),
      escape_sql lib (SText (guid item)),
      escape_sql lib (SText (author item)),
      escape_sql lib (SText (image_url item)),
      escape_sql lib (SText (tags item)),
      escape_sql lib (SText (language item)),
      str_int (view_count item),
      str_int (like_count item),
      str_int (comment_count item),
      str_int (share_count item),
      float_str lib (hotness_score item),
      escape_sql lib (SText (status item)),
      escape_sql lib (SBool (is_processed item))]"

definition sql_insert :: "pylib \<Rightarrow> news_item \<Rightarrow> ustring" where
  \<comment> \<open>the statement of one record, with the empty line after it\<close>
  "sql_insert lib item = sql_head @ join sql_sep (sql_values lib item) @ sql_tail"

definition generate_sql_inserts :: "pylib \<Rightarrow> ustring \<Rightarrow> news_item list \<Rightarrow> ustring" where
  \<comment> \<open>the text written to the SQL file; the second argument is the time stamp of the
      second comment line\<close>
  "generate_sql_inserts lib stamp items =
     [0x2D, 0x2D, 0x20, 0x81EA, 0x52A8, 0x751F, 0x6210, 0x7684, 0x65B0, 0x95FB, 0x6570, 0x636E, 0x63D2, 0x5165, 0x8BED, 0x53E5] @ nl @
     [0x2D, 0x2D, 0x20, 0x751F, 0x6210, 0x65F6, 0x95F4, 0x3A, 0x20] @ stamp @ nl @ nl @
     asc ''BEGIN;'' @ nl @ nl @
     concat (map (sql_insert lib) items) @
     asc ''COMMIT;'' @ nl"

subsection \<open>Well-formed statements\<close>

fun sql_scan :: "bool \<Rightarrow> nat \<Rightarrow> ustring \<Rightarrow> (bool \<times> nat) option" where
  \<comment> \<open>a lexical pass over SQL text: whether the position is inside a string literal,
      and how many parentheses are open outside of literals. A quote opens or closes a
      literal, so a doubled quote inside a literal leaves it open. \<open>None\<close>: a closing
      parenthesis without its opening one\<close>
  "sql_scan q d [] = Some (q, d)"
| "sql_scan q d (c # cs) =
     (if c = 0x27 then sql_scan (\<not> q) d cs
      else if q then sql_scan q d cs
      else if c = 0x28 then sql_scan q (Suc d) cs
      else if c = 0x29 then (case d of 0 \<Rightarrow> None | Suc d' \<Rightarrow> sql_scan q d' cs)
      else sql_scan q d cs)"

definition well_formed_statement :: "ustring \<Rightarrow> bool" where
  \<comment> \<open>every literal is closed, the parentheses outside of literals are balanced, and
      the text ends with a semicolon before its closing line feeds\<close>
  "well_formed_statement s \<longleftrightarrow>
     sql_scan False 0 s = Some (False, 0) \<and> suffix (asc '';'' @ nl @ nl) s"

fun sql_literal_body :: "ustring \<Rightarrow> ustring option" where
  \<comment> \<open>the string a literal denotes, read after its opening quote\<close>
  "sql_literal_body [] = None"
| "sql_literal_body [c] = (if c = 0x27 then Some [] else None)"
| "sql_literal_body (c # c' # cs) =
     (if c = 0x27 then (if c' = 0x27 then map_option ((#) 0x27) (sql_literal_body cs) else None)
      else map_option ((#) c) (sql_literal_body (c' # cs)))"

definition sql_literal_value :: "ustring \<Rightarrow> ustring option" where
  "sql_literal_value s =
     (case s of [] \<Rightarrow> None | c # cs \<Rightarrow> if c = 0x27 then sql_literal_body cs else None)"

definition plain :: "uchar \<Rightarrow> bool" where
  \<comment> \<open>neither a quote nor a parenthesis\<close>
  "plain c \<longleftrightarrow> c \<noteq> 0x27 \<and> c \<noteq> 0x28 \<and> c \<noteq> 0x29"

subsection \<open>Clocks that can go back thirty days\<close>

definition clock_ok :: "datetime \<Rightarrow> bool" where
  \<comment> \<open>the date is a day of the years 1 to 9999, and not one of the first thirty\<close>
  "clock_ok t \<longleftrightarrow>
     31 \<le> ymd2ord (year t) (month t) (day t) \<and> ymd2ord (year t) (month t) (day t) \<le> 3652059"

subsection \<open>Example inputs\<close>

text \<open>
  A stand-in for the library, an environment for each variant and two source records,
  for the examples that follow the theorems. The first record has the title
  U+80A1 U+5E02 (stock market), a one-sentence body about the economy, a URL and the
  publish time of the specification's example; the second has a body of two spaces.
\<close>

definition example_lib :: pylib where
  "example_lib =
     \<lparr>md5_hexdigest = (\<lambda>s. asc ''0cc175b9c0f1b6a831c399e269772661''),
      urlparse_netloc = (\<lambda>u. Some (asc ''www.example.com'')),
      float_str = (\<lambda>x. asc ''45.0'')\<rparr>"

definition example_clock :: datetime where
  "example_clock = \<lparr>year = 2026, month = 11, day = 3, hour = 9, minute = 30, second = 0\<rparr>"

definition example_env :: env where
  "example_env =
     \<lparr>now_parse = example_clock, guid_salt = asc ''1762162200.0'',
      draw_view = 0, draw_like = 0, draw_comment = 0, draw_share = 0, draw_author = 0\<rparr>"

definition example_env2 :: env2 where
  "example_env2 =
     \<lparr>clock_parse = example_clock, clock_handler = example_clock, clock_hot = example_clock,
      salt = asc ''2026-11-03T09:30:00'', r_base = 0, r_like = 0, r_comment = 0, r_share = 0,
      r_days = 0, r_days_handler = 0, r_uniform = 500, r_category = 0, r_tag_count = 2,
      r_tag1 = 0, r_tag2 = 0\<rparr>"

definition example_item :: source_item where
  "example_item =
     [key_title \<mapsto> [0x80A1, 0x5E02],
      key_content \<mapsto> [0x7ECF, 0x6D4E, 0x589E, 0x957F, 0x3002],
      key_url \<mapsto> asc ''https://www.example.com/a'',
      key_publish_time \<mapsto> [0x32, 0x30, 0x32, 0x35, 0x5E74, 0x30, 0x37, 0x6708, 0x30, 0x31, 0x65E5, 0x31, 0x39, 0x3A, 0x30, 0x31]]"

definition blank_item :: source_item where
  "blank_item =
     [key_title \<mapsto> [0x80A1, 0x5E02],
      key_content \<mapsto> asc ''  '',
      key_url \<mapsto> asc ''https://www.example.com/a'']"

(*PROPERTIES*)

section \<open>Properties of the summary generator\<close>

lemma find_close_set: "find_close cs = Some r \<Longrightarrow> set r \<subseteq> set cs"
  by (induction cs) (auto split: if_splits)

lemma remove_brackets_set: "set (remove_brackets xs) \<subseteq> set xs"
proof (induction xs rule: remove_brackets.induct)
  case 1
  show ?case by simp
next
  case (2 c cs)
  show ?case
  proof (cases "c = lbracket")
    case False
    with 2 show ?thesis by auto
  next
    case True
    show ?thesis
    proof (cases "find_close cs")
      case None
      with True 2 show ?thesis by auto
    next
      case (Some r)
      with True 2 find_close_set[OF Some] show ?thesis by auto
    qed
  qed
qed

lemma clean_content_nospace: "c \<in> set (clean_content x) \<Longrightarrow> \<not> isspace c"
  using remove_brackets_set[of "filter (\<lambda>c. \<not> isspace c) x"]
  by (auto simp: clean_content_def)

lemma remove_brackets_id: "lbracket \<notin> set s \<Longrightarrow> remove_brackets s = s"
  by (induction s) auto

lemma clean_content_id:
  "lbracket \<notin> set s \<Longrightarrow> \<forall>c\<in>set s. \<not> isspace c \<Longrightarrow> clean_content s = s"
  by (simp add: clean_content_def remove_brackets_id)

lemma split_on_none: "\<forall>c\<in>set s. \<not> p c \<Longrightarrow> split_on p s = [s]"
  by (induction s) auto

lemma split_on_last: "\<forall>c\<in>set s. \<not> p c \<Longrightarrow> p t \<Longrightarrow> split_on p (s @ [t]) = [s, []]"
  by (induction s) auto

lemma dropWhile_none: "\<forall>c\<in>set s. \<not> p c \<Longrightarrow> dropWhile p s = s"
  by (cases s) auto

lemma strip_id: "\<forall>c\<in>set s. \<not> isspace c \<Longrightarrow> strip s = s"
  by (simp add: strip_def dropWhile_none)

lemma strip_length: "length (strip s) \<le> length s"
proof -
  have "length (strip s) \<le> length (dropWhile isspace s)"
    unfolding strip_def using length_dropWhile_le[of isspace "rev (dropWhile isspace s)"]
    by simp
  also have "\<dots> \<le> length s"
    by (rule length_dropWhile_le)
  finally show ?thesis .
qed

lemma full_stop_not_space: "\<not> isspace full_stop"
  by (simp add: isspace_def full_stop_def)

text \<open>
  A cleaned text that is one non-empty sentence within the budget, with or without a
  closing terminal mark, is summarised as the sentence and a full stop.
\<close>

lemma generate_summary_single:
  assumes cl: "clean_content body = s \<or>
               (\<exists>t. is_terminal t \<and> clean_content body = s @ [t])"
    and ne: "s \<noteq> []"
    and nt: "\<forall>c\<in>set s. \<not> is_terminal c"
    and le: "int (length s) \<le> max_length"
  shows "generate_summary body max_length = s @ [full_stop]"
proof -
  have sub: "set s \<subseteq> set (clean_content body)"
    using cl by auto
  have ns: "\<forall>c\<in>set s. \<not> isspace c"
    using sub clean_content_nospace by blast
  have st: "strip s = s"
    using ns by (rule strip_id)
  have sp: "split_on is_terminal (clean_content body) = [s] \<or>
            split_on is_terminal (clean_content body) = [s, []]"
    using cl nt by (auto simp: split_on_none split_on_last)
  have strip_nil: "strip [] = []"
    by (simp add: strip_def)
  have loop: "summary_loop max_length [] (split_on is_terminal (clean_content body))
              = s @ [full_stop]"
    using sp st ne le by (auto simp: strip_nil)
  have fin: "strip (s @ [full_stop]) = s @ [full_stop]"
    using ns full_stop_not_space by (intro strip_id) auto
  show ?thesis
    using loop fin by (simp add: generate_summary_def Let_def)
qed

text \<open>
  The loop keeps the accumulator within the budget plus one: the test counts the
  sentence, the assignment adds the sentence and its full stop.
\<close>

lemma summary_loop_length:
  "int (length acc) \<le> m + 1 \<Longrightarrow> int (length (summary_loop m acc ss)) \<le> m + 1"
  by (induction ss arbitrary: acc) auto

lemma generate_summary_length_bound:
  assumes "0 \<le> m"
  shows "int (length (generate_summary body m)) \<le> m + 3"
proof -
  let ?sm = "summary_loop m [] (split_on is_terminal (clean_content body))"
  have a: "int (length ?sm) \<le> m + 1"
    using assms by (intro summary_loop_length) simp
  have b: "int (length (strip ?sm)) \<le> m + 1"
    using a strip_length[of ?sm] by linarith
  have c: "int (length (slice_to body m @ asc ''...'')) \<le> m + 3"
    using assms by (simp add: slice_to_def asc_def)
  show ?thesis
    using b c by (simp add: generate_summary_def Let_def)
qed

text \<open>
  C4. The summary is claimed to stay within the budget when it is built from sentences.
  The loop compares \<open>len(summary + sentence)\<close> with the budget and then appends the
  sentence and a full stop, which the comparison did not count: one sentence of exactly
  200 characters (here the letter a) with the default budget 200 gives a summary of 201
  characters.
\<close>

theorem generate_summary_exceeds_budget:
  "generate_summary (replicate 200 0x61 @ [full_stop]) 200 = replicate 200 0x61 @ [full_stop]
   \<and> length (generate_summary (replicate 200 0x61 @ [full_stop]) 200) = 201"
proof -
  let ?s = "replicate 200 (0x61::nat)"
  have nl: "lbracket \<notin> set (?s @ [full_stop])"
    by (simp add: lbracket_def full_stop_def)
  have nsp: "\<forall>c\<in>set (?s @ [full_stop]). \<not> isspace c"
    by (simp add: isspace_def full_stop_def)
  have cl: "clean_content (?s @ [full_stop]) = ?s @ [full_stop]"
    using nl nsp by (rule clean_content_id)
  have tm: "is_terminal full_stop"
    by (simp add: is_terminal_def full_stop_def)
  have nt: "\<forall>c\<in>set ?s. \<not> is_terminal c"
    by (simp add: is_terminal_def)
  have "generate_summary (?s @ [full_stop]) 200 = ?s @ [full_stop]"
    by (rule generate_summary_single[where s = ?s]) (use cl tm nt in auto)
  then show ?thesis by simp
qed



section \<open>Properties of the float model and the hotness score\<close>

lemma double_round_eval:
  assumes "0 < q" and "floor_log2 q = e" and "- 1022 \<le> e"
    and "round_half_even (q / pow2 (e - 52)) = m"
    and "of_int m * pow2 (e - 52) < pow2 1024"
  shows "double_round q = Some (of_int m * pow2 (e - 52))"
proof -
  have m: "max (floor_log2 q) (- 1022) = e"
    using assms(2,3) by simp
  have a: "\<bar>q\<bar> = q" and s: "sgn q = 1" and nz: "q \<noteq> 0"
    using assms(1) by simp_all
  show ?thesis
    using assms(4,5) by (simp add: double_round_def Let_def m a s nz)
qed

lemma round_half_even_int: "round_half_even (of_int m) = m"
  by (simp add: round_half_even_def)

text \<open>A number with at most 53 significant bits is its own rounding.\<close>

lemma double_round_exact:
  assumes "0 < q" and "floor_log2 q = e" and "- 1022 \<le> e"
    and "q / pow2 (e - 52) = of_int m" and "q < pow2 1024"
  shows "double_round q = Some q"
proof -
  have nz: "pow2 (e - 52) \<noteq> 0"
    by (simp add: pow2_def)
  have q: "of_int m * pow2 (e - 52) = q"
    using assms(4) nz by (simp add: field_simps)
  have r: "round_half_even (q / pow2 (e - 52)) = m"
    using assms(4) by (simp add: round_half_even_int)
  show ?thesis
    using double_round_eval[OF assms(1,2,3) r] q assms(5) by simp
qed

text \<open>The literal \<open>0.1\<close> is the float \<open>3602879701896397 / 2 ^ 55\<close>.\<close>

lemma double_round_tenth:
  "double_round (1 / 10) = Some (3602879701896397 / 36028797018963968)"
proof -
  have a: "floor_log2 (1 / 10) = - 4" by code_simp
  have b: "round_half_even ((1 / 10) / pow2 (- 4 - 52)) = 7205759403792794" by code_simp
  have c: "of_int 7205759403792794 * pow2 (- 4 - 52) < pow2 1024" by (simp add: pow2_def)
  have d: "of_int 7205759403792794 * pow2 (- 4 - 52)
           = (3602879701896397 / 36028797018963968 :: rat)"
    by (simp add: pow2_def)
  show ?thesis
    using double_round_eval[of "1 / 10" "- 4" 7205759403792794, OF _ a _ b c] d by simp
qed

text \<open>\<open>100 * 0.1\<close> is exactly \<open>10.0\<close>: the excess of the literal is rounded away.\<close>

lemma fmul_100_tenth: "fmul 100 (3602879701896397 / 36028797018963968) = Some 10"
proof -
  have q: "100 * (3602879701896397 / 36028797018963968)
           = (90071992547409925 / 9007199254740992 :: rat)"
    by simp
  have a: "floor_log2 (90071992547409925 / 9007199254740992) = 3" by code_simp
  have b: "round_half_even ((90071992547409925 / 9007199254740992) / pow2 (3 - 52))
           = 5629499534213120" by code_simp
  have c: "of_int 5629499534213120 * pow2 (3 - 52) < pow2 1024" by (simp add: pow2_def)
  have d: "of_int 5629499534213120 * pow2 (3 - 52) = (10 :: rat)"
    by (simp add: pow2_def)
  show ?thesis
    unfolding fmul_def q
    using double_round_eval[of "90071992547409925 / 9007199254740992" 3 5629499534213120,
        OF _ a _ b c] d
    by simp
qed

lemma double_round_100: "double_round 100 = Some 100"
proof -
  have a: "floor_log2 100 = 6" by code_simp
  have b: "(100::rat) / pow2 (6 - 52) = of_int 7036874417766400" by (simp add: pow2_def)
  have c: "(100::rat) < pow2 1024" by (simp add: pow2_def)
  show ?thesis
    by (rule double_round_exact[OF _ a _ b c]) simp_all
qed

lemma double_round_20: "double_round 20 = Some 20"
proof -
  have a: "floor_log2 20 = 4" by code_simp
  have b: "(20::rat) / pow2 (4 - 52) = of_int 5629499534213120" by (simp add: pow2_def)
  have c: "(20::rat) < pow2 1024" by (simp add: pow2_def)
  show ?thesis
    by (rule double_round_exact[OF _ a _ b c]) simp_all
qed

lemma double_round_30: "double_round 30 = Some 30"
proof -
  have a: "floor_log2 30 = 4" by code_simp
  have b: "(30::rat) / pow2 (4 - 52) = of_int 8444249301319680" by (simp add: pow2_def)
  have c: "(30::rat) < pow2 1024" by (simp add: pow2_def)
  show ?thesis
    by (rule double_round_exact[OF _ a _ b c]) simp_all
qed

lemma double_round_15: "double_round 15 = Some 15"
proof -
  have a: "floor_log2 15 = 3" by code_simp
  have b: "(15::rat) / pow2 (3 - 52) = of_int 8444249301319680" by (simp add: pow2_def)
  have c: "(15::rat) < pow2 1024" by (simp add: pow2_def)
  show ?thesis
    by (rule double_round_exact[OF _ a _ b c]) simp_all
qed

lemma double_round_45: "double_round 45 = Some 45"
proof -
  have a: "floor_log2 45 = 5" by code_simp
  have b: "(45::rat) / pow2 (5 - 52) = of_int 6333186975989760" by (simp add: pow2_def)
  have c: "(45::rat) < pow2 1024" by (simp add: pow2_def)
  show ?thesis
    by (rule double_round_exact[OF _ a _ b c]) simp_all
qed

text \<open>
  A rounding stays finite, and within twice the bound of its argument plus one, as long as
  the argument is far below the largest float.
\<close>

lemma bit_length_lower: "0 < n \<Longrightarrow> 2 ^ (bit_length n - 1) \<le> n"
proof (induction n rule: bit_length.induct)
  case (1 n)
  show ?case
  proof (cases "n div 2 = 0")
    case True
    then have "bit_length (n div 2) = 0" by simp
    then have "bit_length n = 1" using 1(2) by (subst bit_length.simps) simp
    then show ?thesis using 1(2) by simp
  next
    case False
    then have pos: "0 < n div 2" by simp
    have ih: "2 ^ (bit_length (n div 2) - 1) \<le> n div 2"
      using 1(1) 1(2) pos by simp
    have bl: "bit_length n = Suc (bit_length (n div 2))"
      using 1(2) by (subst bit_length.simps) simp
    have "0 < bit_length (n div 2)"
      using pos by (subst bit_length.simps) simp
    then have "(2::nat) ^ (bit_length n - 1) = 2 * 2 ^ (bit_length (n div 2) - 1)"
      using bl by (cases "bit_length (n div 2)") simp_all
    also have "\<dots> \<le> 2 * (n div 2)" using ih by simp
    also have "\<dots> \<le> n" by simp
    finally show ?thesis .
  qed
qed

lemma pow2_powi: "pow2 k = 2 powi k"
  by (simp add: pow2_def power_int_def field_simps)

lemma pow2_pos: "0 < pow2 k"
  by (simp add: pow2_powi)

lemma pow2_mono: "a \<le> b \<Longrightarrow> pow2 a \<le> pow2 b"
  by (simp add: pow2_powi power_int_increasing)

lemma floor_log2_le: 
  assumes "0 < q"
  shows "pow2 (floor_log2 q) \<le> max q 1"
proof (cases "1 \<le> q")
  case True
  let ?n = "nat \<lfloor>q\<rfloor>"
  have n: "0 < ?n" using True by simp
  have fl: "floor_log2 q = int (bit_length ?n) - 1"
    using True by (simp add: floor_log2_def)
  have blpos: "0 < bit_length ?n" using n by (subst bit_length.simps) simp
  then have "floor_log2 q = int (bit_length ?n - 1)" using fl by simp
  then have "pow2 (floor_log2 q) = 2 ^ (bit_length ?n - 1)"
    by (simp add: pow2_def)
  also have "\<dots> = of_nat (2 ^ (bit_length ?n - 1))" by simp
  also have "\<dots> \<le> of_nat ?n" using bit_length_lower[OF n] of_nat_le_iff by blast
  also have "\<dots> = of_int \<lfloor>q\<rfloor>" using True by simp
  also have "\<dots> \<le> q" by simp
  finally show ?thesis by simp
next
  case False
  then have "floor_log2 q \<le> 0" by (simp add: floor_log2_def)
  then have "pow2 (floor_log2 q) \<le> pow2 0" by (rule pow2_mono)
  then show ?thesis by (simp add: pow2_def)
qed

lemma round_half_even_le: "of_int (round_half_even x) \<le> x + 1"
proof -
  have f: "of_int \<lfloor>x\<rfloor> \<le> x" by simp
  have "round_half_even x = \<lfloor>x\<rfloor> \<or> round_half_even x = \<lfloor>x\<rfloor> + 1"
    by (simp add: round_half_even_def Let_def)
  then show ?thesis
  proof
    assume "round_half_even x = \<lfloor>x\<rfloor>"
    then show ?thesis using f by linarith
  next
    assume "round_half_even x = \<lfloor>x\<rfloor> + 1"
    then show ?thesis using f by simp
  qed
qed

lemma round_half_even_nonneg: "0 \<le> x \<Longrightarrow> 0 \<le> round_half_even x"
  by (auto simp: round_half_even_def Let_def)

lemma double_round_bounded:
  assumes "\<bar>q\<bar> \<le> B" and "B \<le> 2 ^ 1000"
  shows "\<exists>r. double_round q = Some r \<and> \<bar>r\<bar> \<le> 2 * B + 1"
proof (cases "q = 0")
  case True
  then show ?thesis using assms by (simp add: double_round_def)
next
  case False
  define a where "a = \<bar>q\<bar>"
  define e where "e = max (floor_log2 a) (- 1022)"
  define ulp where "ulp = pow2 (e - 52)"
  define m where "m = round_half_even (a / ulp)"
  define r where "r = of_int m * ulp"
  have apos: "0 < a" using False by (simp add: a_def)
  have upos: "0 < ulp" by (simp add: ulp_def pow2_pos)
  have m0: "0 \<le> m" unfolding m_def using apos upos by (intro round_half_even_nonneg) simp
  have "of_int m \<le> a / ulp + 1" unfolding m_def by (rule round_half_even_le)
  then have "of_int m * ulp \<le> (a / ulp + 1) * ulp"
    using upos by (simp add: mult_right_mono)
  moreover have "(a / ulp + 1) * ulp = a + ulp"
    using upos by (simp add: distrib_right)
  ultimately have r1: "r \<le> a + ulp" by (simp add: r_def)
  have "pow2 e \<le> max a 1"
  proof (cases "floor_log2 a \<le> - 1022")
    case True
    then have "e = - 1022" by (simp add: e_def)
    then have "pow2 e \<le> pow2 0" by (intro pow2_mono) simp
    then show ?thesis by (simp add: pow2_def)
  next
    case False
    then have "e = floor_log2 a" by (simp add: e_def)
    then show ?thesis using floor_log2_le[OF apos] by simp
  qed
  moreover have "ulp \<le> pow2 e" unfolding ulp_def by (intro pow2_mono) simp
  ultimately have u1: "ulp \<le> max a 1" by simp
  have aB: "a \<le> B" using assms(1) by (simp add: a_def)
  have "max a 1 \<le> B + 1" using aB apos by simp
  then have r2: "r \<le> 2 * B + 1" using r1 u1 aB by linarith
  have r0: "0 \<le> r" using m0 upos by (simp add: r_def)
  have "(2::rat) * 2 ^ 1000 + 1 < 2 ^ 1024" by simp
  then have "r < pow2 1024" using r2 assms(2) by (simp add: pow2_def)
  then have "double_round q = Some (sgn q * r)"
    using False by (simp add: double_round_def Let_def a_def e_def ulp_def m_def r_def)
  moreover have "\<bar>sgn q * r\<bar> = r" using False r0 by (simp add: abs_mult)
  ultimately show ?thesis using r2 by simp
qed

lemma fmul_bounded:
  assumes "\<bar>x\<bar> \<le> X" and "\<bar>y\<bar> \<le> Y" and "X * Y \<le> 2 ^ 1000"
  shows "\<exists>r. fmul x y = Some r \<and> \<bar>r\<bar> \<le> 2 * (X * Y) + 1"
proof -
  have "\<bar>x * y\<bar> \<le> X * Y"
    using assms(1,2) by (simp add: abs_mult mult_mono)
  then show ?thesis
    unfolding fmul_def using assms(3) by (rule double_round_bounded)
qed

lemma fadd_bounded:
  assumes "\<bar>x\<bar> \<le> X" and "\<bar>y\<bar> \<le> Y" and "X + Y \<le> 2 ^ 1000"
  shows "\<exists>r. fadd x y = Some r \<and> \<bar>r\<bar> \<le> 2 * (X + Y) + 1"
proof -
  have "\<bar>x + y\<bar> \<le> X + Y"
    using assms(1,2) by linarith
  then show ?thesis
    unfolding fadd_def using assms(3) by (rule double_round_bounded)
qed

lemma float_of_int_bounded:
  assumes "\<bar>n\<bar> \<le> N" and "of_int N \<le> (2 ^ 1000 :: rat)"
  shows "\<exists>r. float_of_int n = Some r \<and> \<bar>r\<bar> \<le> 2 * of_int N + 1"
proof -
  have "\<bar>of_int n :: rat\<bar> \<le> of_int N"
    using assms(1) by (metis of_int_abs of_int_le_iff)
  then show ?thesis
    unfolding float_of_int_def using assms(2) by (rule double_round_bounded)
qed

lemma round_half_even_abs: "\<bar>of_int (round_half_even x) :: rat\<bar> \<le> \<bar>x\<bar> + 1"
proof -
  have f: "of_int \<lfloor>x\<rfloor> \<le> x" and g: "x - 1 < of_int \<lfloor>x\<rfloor>" by linarith+
  have "round_half_even x = \<lfloor>x\<rfloor> \<or> round_half_even x = \<lfloor>x\<rfloor> + 1"
    by (simp add: round_half_even_def Let_def)
  then show ?thesis
  proof
    assume "round_half_even x = \<lfloor>x\<rfloor>"
    then show ?thesis using f g by (simp add: abs_if) linarith
  next
    assume "round_half_even x = \<lfloor>x\<rfloor> + 1"
    then show ?thesis using f g by (simp add: abs_if) linarith
  qed
qed

lemma py_round_bounded:
  assumes "\<bar>x\<bar> \<le> X" and "X + 1 \<le> 2 ^ 1000"
  shows "\<exists>r. py_round x nd = Some r \<and> \<bar>r\<bar> \<le> 2 * (X + 1) + 1"
proof -
  have p: "(0::rat) < 10 ^ nd" by simp
  have p1: "(1::rat) \<le> 10 ^ nd" by simp
  have "\<bar>of_int (round_half_even (x * 10 ^ nd)) :: rat\<bar> \<le> \<bar>x * 10 ^ nd\<bar> + 1"
    by (rule round_half_even_abs)
  also have "\<dots> = \<bar>x\<bar> * 10 ^ nd + 1" by (simp add: abs_mult)
  also have "\<dots> \<le> \<bar>x\<bar> * 10 ^ nd + 10 ^ nd" using p1 by simp
  also have "\<dots> = (\<bar>x\<bar> + 1) * 10 ^ nd" by (simp add: distrib_right)
  finally have "\<bar>of_int (round_half_even (x * 10 ^ nd)) :: rat\<bar> / 10 ^ nd \<le> \<bar>x\<bar> + 1"
    using p by (simp add: pos_divide_le_eq)
  then have "\<bar>of_int (round_half_even (x * 10 ^ nd)) / 10 ^ nd :: rat\<bar> \<le> X + 1"
    using assms(1) by simp
  then show ?thesis
    unfolding py_round_def using assms(2) by (rule double_round_bounded)
qed

lemma randint_range: "a \<le> b \<Longrightarrow> a \<le> randint a b r \<and> randint a b r \<le> b"
proof -
  assume "a \<le> b"
  then have p: "0 < b - a + 1" by simp
  have "0 \<le> int r mod (b - a + 1)" using p by (rule pos_mod_sign)
  moreover have "int r mod (b - a + 1) < b - a + 1" using p by (rule pos_mod_bound)
  ultimately show ?thesis unfolding randint_def by linarith
qed

lemma calculate_hotness_score_finite:
  assumes "\<bar>view_count st\<bar> \<le> 1000000" and "\<bar>like_count st\<bar> \<le> 1000000"
    and "\<bar>comment_count st\<bar> \<le> 1000000" and "\<bar>share_count st\<bar> \<le> 1000000"
  shows "\<exists>h. calculate_hotness_score st = Some h"
proof -
  define t :: rat where "t = 3602879701896397 / 36028797018963968"
  have t: "double_round (1 / 10) = Some t" "\<bar>t\<bar> \<le> 1"
    using double_round_tenth by (simp_all add: t_def)
  obtain v where v: "float_of_int (view_count st) = Some v" "\<bar>v\<bar> \<le> 2000001"
    using float_of_int_bounded[OF assms(1)] by auto
  obtain a where a: "fmul v t = Some a" "\<bar>a\<bar> \<le> 4000003"
    using fmul_bounded[OF v(2) t(2)] by auto
  have "\<bar>like_count st * 2\<bar> \<le> 2000000" using assms(2) by simp
  then obtain l where l: "float_of_int (like_count st * 2) = Some l" "\<bar>l\<bar> \<le> 4000001"
    using float_of_int_bounded[of "like_count st * 2" 2000000] by auto
  obtain b where b: "fadd a l = Some b" "\<bar>b\<bar> \<le> 16000009"
    using fadd_bounded[OF a(2) l(2)] by auto
  have "\<bar>comment_count st * 3\<bar> \<le> 3000000" using assms(3) by simp
  then obtain c where c: "float_of_int (comment_count st * 3) = Some c" "\<bar>c\<bar> \<le> 6000001"
    using float_of_int_bounded[of "comment_count st * 3" 3000000] by auto
  obtain d where d: "fadd b c = Some d" "\<bar>d\<bar> \<le> 44000021"
    using fadd_bounded[OF b(2) c(2)] by auto
  have "\<bar>share_count st * 5\<bar> \<le> 5000000" using assms(4) by simp
  then obtain s where s: "float_of_int (share_count st * 5) = Some s" "\<bar>s\<bar> \<le> 10000001"
    using float_of_int_bounded[of "share_count st * 5" 5000000] by auto
  obtain sc where sc: "fadd d s = Some sc" "\<bar>sc\<bar> \<le> 108000045"
    using fadd_bounded[OF d(2) s(2)] by auto
  obtain h where h: "py_round sc (Suc 0) = Some h"
    using py_round_bounded[OF sc(2), of "Suc 0"] by auto
  show ?thesis
    by (simp add: calculate_hotness_score_def t v a l b c d s sc h)
qed

lemma generate_random_stats_bounds:
  "\<bar>view_count (generate_random_stats r1 r2 r3 r4)\<bar> \<le> 1000000 \<and>
   \<bar>like_count (generate_random_stats r1 r2 r3 r4)\<bar> \<le> 1000000 \<and>
   \<bar>comment_count (generate_random_stats r1 r2 r3 r4)\<bar> \<le> 1000000 \<and>
   \<bar>share_count (generate_random_stats r1 r2 r3 r4)\<bar> \<le> 1000000"
  using randint_range[of 100 10000 r1] randint_range[of 10 1000 r2]
    randint_range[of 5 500 r3] randint_range[of 0 200 r4]
  by (simp add: generate_random_stats_def)

text \<open>
  C5. For the counts 100 views, 10 likes, 5 comments and 0 shares the score of variant 1
  is the float 45.0: \<open>100 * 0.1\<close> rounds to 10.0, the sums 30.0 and 45.0 are exact, and
  rounding to one decimal keeps 45.0. The function takes the counts only, so the age of
  the record has no part in it.
\<close>

theorem calculate_hotness_score_example:
  "calculate_hotness_score
     \<lparr>view_count = 100, like_count = 10, comment_count = 5, share_count = 0\<rparr> = Some 45"
proof -
  have z: "double_round 0 = Some 0"
    by (simp add: double_round_def)
  have r: "round_half_even 450 = 450"
    using round_half_even_int[of 450] by simp
  show ?thesis
    by (simp add: calculate_hotness_score_def float_of_int_def fadd_def py_round_def
        double_round_tenth fmul_100_tenth double_round_100 double_round_20 double_round_30
        double_round_15 double_round_45 z r)
qed

section \<open>Properties of the two record converters\<close>

lemma convert_news_item_fields:
  assumes "convert_news_item lib e item = Inr r"
  shows "strip (item_get item key_content []) \<noteq> []"
    and "title r = item_get item key_title []"
    and "content r = item_get item key_content []"
    and "summary r = generate_summary (item_get item key_content []) 200"
    and "description r = summary r"
    and "source r = (if item_get item key_source [] = []
                     then extract_domain_name lib (item_get item key_url [])
                     else item_get item key_source [])"
    and "category r = analyze_category_with_ai (item_get item key_title [])
                        (item_get item key_content [])"
    and "published_at r = parse_datetime (now_parse e) (item_get item key_publish_time [])"
    and "tags r = json_dumps_list [category r, category r, tag_hot]"
    and "link r = item_get item key_url []"
  using assms
  by (auto simp: convert_news_item_def Let_def split: if_splits option.splits sum.splits)

lemma convert_news_item_total:
  assumes "strip (item_get item key_content []) \<noteq> []"
    and "encodable (item_get item key_url [] @ item_get item key_title [] @ guid_salt e)"
  shows "\<exists>r. convert_news_item lib e item = Inr r"
proof -
  have ne: "item_get item key_content [] \<noteq> []"
    using assms(1) by (auto simp: strip_def)
  obtain h where h: "calculate_hotness_score
      (generate_random_stats (draw_view e) (draw_like e) (draw_comment e) (draw_share e)) = Some h"
    using calculate_hotness_score_finite generate_random_stats_bounds by blast
  show ?thesis
    using assms ne h by (simp add: convert_news_item_def Let_def generate_guid_def)
qed

lemma convert_news_item_blank:
  assumes "strip (item_get item key_content []) = []"
  shows "convert_news_item lib e item = Inl (ValueError empty_body_message)"
  using assms by (simp add: convert_news_item_def Let_def)

lemma random_past_ok: "clock_ok now \<Longrightarrow> \<exists>s. random_past now r = Inr s"
proof -
  assume ok: "clock_ok now"
  have k: "1 \<le> randint 1 30 r \<and> randint 1 30 r \<le> 30"
    by (rule randint_range) simp
  obtain y m d where o: "ord2ymd (ymd2ord (year now) (month now) (day now) - randint 1 30 r) = (y, m, d)"
    by (metis prod_cases3)
  show ?thesis
    using ok k o by (simp add: random_past_def minus_days_def Let_def clock_ok_def)
qed

lemma parse_datetime2_ok:
  assumes "clock_ok (clock_handler e)"
  shows "\<exists>s. parse_datetime2 e date_str = Inr s"
proof -
  obtain h where h: "random_past (clock_handler e) (r_days_handler e) = Inr h"
    using random_past_ok[OF assms] by blast
  show ?thesis
    by (auto simp: parse_datetime2_def Let_def h split: option.splits sum.splits)
qed

lemma generate_random_stats2_ok: "\<exists>st. generate_random_stats2 r1 r2 r3 r4 = Some st"
proof -
  let ?b = "randint 100 10000 r1"
  have "\<bar>?b\<bar> \<le> 10000" using randint_range[of 100 10000 r1] by simp
  then obtain b where b: "float_of_int ?b = Some b" "\<bar>b\<bar> \<le> 20001"
    using float_of_int_bounded[of ?b 10000] by auto
  obtain c1 where c1: "double_round (1 / 100) = Some c1" "\<bar>c1\<bar> \<le> 3"
    using double_round_bounded[of "1 / 100" 1] by auto
  obtain c2 where c2: "double_round (1 / 10) = Some c2" "\<bar>c2\<bar> \<le> 3"
    using double_round_bounded[of "1 / 10" 1] by auto
  obtain c3 where c3: "double_round (5 / 100) = Some c3" "\<bar>c3\<bar> \<le> 3"
    using double_round_bounded[of "5 / 100" 1] by auto
  obtain c4 where c4: "double_round (2 / 100) = Some c4" "\<bar>c4\<bar> \<le> 3"
    using double_round_bounded[of "2 / 100" 1] by auto
  obtain x1 where x1: "fmul b c1 = Some x1" using fmul_bounded[OF b(2) c1(2)] by auto
  obtain x2 where x2: "fmul b c2 = Some x2" using fmul_bounded[OF b(2) c2(2)] by auto
  obtain x3 where x3: "fmul b c3 = Some x3" using fmul_bounded[OF b(2) c3(2)] by auto
  obtain x4 where x4: "fmul b c4 = Some x4" using fmul_bounded[OF b(2) c4(2)] by auto
  show ?thesis
    using b(1) c1(1) c2(1) c3(1) c4(1) x1 x2 x3 x4
    by (simp add: generate_random_stats2_def Let_def)
qed

lemma calculate_hotness_score2_ok:
  assumes "\<bar>u\<bar> \<le> 1000"
  shows "\<exists>h. calculate_hotness_score2 now u st pub = Some h"
proof -
  obtain h where h: "py_round u 2 = Some h"
    using py_round_bounded[OF assms, of 2] by auto
  show ?thesis
    by (auto simp: calculate_hotness_score2_def h split: option.splits)
qed

lemma convert_news_item2_fields:
  assumes "convert_news_item2 lib e item = Inr r"
  shows "title r = clean_text (item_get item key_title [])"
    and "content r = clean_text (item_get item key_content [])"
    and "source r = (if item_get item key_source [] \<noteq> [] then item_get item key_source []
                     else unknown_source)"
    and "category r = (if item_get item key_keyword [] \<in> set categories2
                       then item_get item key_keyword []
                       else choice categories2 (r_category e))"
    and "tags r = extract_tags e (item_get item key_keyword []) (item_get item key_keyword [])"
    and "link r = item_get item key_url []"
  using assms
  by (auto simp: convert_news_item2_def Let_def split: if_splits option.splits sum.splits)

lemma convert_news_item2_total:
  assumes "clock_ok (clock_handler e)" and "\<bar>r_uniform e\<bar> \<le> 1000"
    and "encodable (item_get item key_title [] @ asc ''_'' @ item_get item key_source [] @
                    asc ''_'' @ salt e)"
  shows "\<exists>r. convert_news_item2 lib e item = Inr r"
proof -
  obtain st where st: "generate_random_stats2 (r_base e) (r_like e) (r_comment e) (r_share e) = Some st"
    using generate_random_stats2_ok by blast
  obtain p where p: "parse_datetime2 e (item_get item key_publish_time []) = Inr p"
    using parse_datetime2_ok[OF assms(1)] by blast
  obtain h where h: "calculate_hotness_score2 (clock_hot e) (r_uniform e) st p = Some h"
    using calculate_hotness_score2_ok[OF assms(2)] by blast
  show ?thesis
    using assms(3) st p h by (simp add: convert_news_item2_def Let_def generate_guid2_def)
qed

end
